theory Spec2Isabelle
  imports Main
begin

text \<open>
  A model of the JAM Mission web application: the catalogue with its slugs, the event
  bookings with their availability guard, the newsletter signup and the session cart
  with its checkout, as \<open>core/models.py\<close>, \<open>core/forms.py\<close> and \<open>core/views.py\<close> define
  them.  A view is a function from the database, the request and the session cart to
  what it leaves behind and its response; an exception that the view does not catch is
  a response of its own.
\<close>

section \<open>Python and Django primitives used by the views\<close>

text \<open>
  Text is modelled as \<^typ>\<open>string\<close>; a character stands for the code point of the same
  number.  Python's unbounded integers are \<^typ>\<open>int\<close>.
\<close>

subsection \<open>Character classes\<close>

definition py_isspace :: "char \<Rightarrow> bool" where
  \<comment> \<open>\<open>str.isspace\<close> and the class \<open>\s\<close>: TAB..CR, FS..US, SPACE, NEL, NBSP\<close>
  "py_isspace c = (of_char c \<in> set [9, 10, 11, 12, 13, 28, 29, 30, 31, 32, 133, 160 :: nat])"

definition py_isdigit :: "char \<Rightarrow> bool" where
  \<comment> \<open>a decimal digit \<open>0\<close>..\<open>9\<close>\<close>
  "py_isdigit c = (48 \<le> (of_char c :: nat) \<and> (of_char c :: nat) \<le> 57)"

definition digit_val :: "char \<Rightarrow> nat" where
  "digit_val c = of_char c - 48"

definition int_isspace :: "char \<Rightarrow> bool" where
  \<comment> \<open>the whitespace \<open>int\<close> skips around a number: TAB..CR, SPACE, NEL, NBSP\<close>
  "int_isspace c = (of_char c \<in> set [9, 10, 11, 12, 13, 32, 133, 160 :: nat])"

definition py_strip :: "string \<Rightarrow> string" where
  \<comment> \<open>the text between the leading and the trailing whitespace of \<open>int\<close>\<close>
  "py_strip s = rev (dropWhile int_isspace (rev (dropWhile int_isspace s)))"

subsection \<open>\<open>int(s)\<close> on a string\<close>

text \<open>
  \<open>int(s)\<close> skips surrounding whitespace, reads an optional sign and then decimal
  digits, where single underscores may stand between two digits.  Of the whitespace of
  \<open>str.isspace\<close> it skips the ASCII characters TAB..CR and SPACE and the two above ASCII,
  not FS..US.  A number of more than 4300 digits is refused, leading zeros counted.
  Anything else than a number raises \<open>ValueError\<close>, which is the value \<open>None\<close> here.
\<close>

fun py_digits :: "nat \<Rightarrow> string \<Rightarrow> nat option" where
  "py_digits acc [] = Some acc"
| "py_digits acc (c # cs) =
     (if py_isdigit c then py_digits (10 * acc + digit_val c) cs
      else if c = CHR ''_'' then
        (case cs of
           [] \<Rightarrow> None
         | d # ds \<Rightarrow> if py_isdigit d then py_digits (10 * acc + digit_val d) ds else None)
      else None)"

definition int_max_str_digits :: nat where
  \<comment> \<open>\<open>sys.get_int_max_str_digits()\<close>\<close>
  "int_max_str_digits = 4300"

definition py_unsigned :: "string \<Rightarrow> nat option" where
  "py_unsigned s =
     (case s of
        [] \<Rightarrow> None
      | c # cs \<Rightarrow>
          if py_isdigit c then
            (case py_digits (digit_val c) cs of
               None \<Rightarrow> None
             | Some n \<Rightarrow>
                 if length (filter py_isdigit s) > int_max_str_digits then None else Some n)
          else None)"

definition py_int :: "string \<Rightarrow> int option" where
  "py_int s =
     (case py_strip s of
        [] \<Rightarrow> None
      | c # cs \<Rightarrow>
          if c = CHR ''-'' then map_option (\<lambda>n. - int n) (py_unsigned cs)
          else if c = CHR ''+'' then map_option int (py_unsigned cs)
          else map_option int (py_unsigned (c # cs)))"

subsection \<open>\<open>str(n)\<close> on an integer\<close>

definition digit_char :: "nat \<Rightarrow> char" where
  \<comment> \<open>only applied to \<open>d < 10\<close>\<close>
  "digit_char d = ''0123456789'' ! d"

function str_nat :: "nat \<Rightarrow> string" where
  "str_nat n = (if n < 10 then [digit_char n] else str_nat (n div 10) @ [digit_char (n mod 10)])"
  by pat_completeness auto
termination
  by (relation "measure (\<lambda>n. n)") auto

declare str_nat.simps [simp del]

definition str_int :: "int \<Rightarrow> string" where
  "str_int i = (if i < 0 then CHR ''-'' # str_nat (nat (- i)) else str_nat (nat i))"

subsection \<open>Decimal arithmetic\<close>

text \<open>
  A product or a sum of \<open>Decimal\<close> values is the exact result rounded to the precision
  of the context, 28 significant digits by default, half-way cases to the even
  neighbour.  The amounts of this model have at most two decimal places, so the rounded
  result is again a whole number of cents, and \<open>round28\<close> rounds the integer: it cuts the
  digits beyond the first 28 and rounds the last digit kept.
\<close>

definition round28 :: "int \<Rightarrow> int" where
  "round28 x =
     (let a = nat \<bar>x\<bar>; n = length (str_nat a)
      in if n \<le> 28 then x
         else
           let p = 10 ^ (n - 28); q = a div p; r = a mod p;
               q' = (if 2 * r > p \<or> (2 * r = p \<and> odd q) then q + 1 else q)
           in sgn x * int (q' * p))"

subsection \<open>Dictionaries and query dictionaries\<close>

text \<open>
  A Python \<open>dict\<close> keeps its keys in insertion order and \<open>cart.items()\<close> iterates in that
  order, so a dictionary is an association list; assigning to a key that is present
  replaces the value in place, assigning to a new key appends.
\<close>

type_synonym 'v pydict = "(string \<times> 'v) list"

definition dict_get :: "'v pydict \<Rightarrow> string \<Rightarrow> 'v \<Rightarrow> 'v" where
  \<comment> \<open>\<open>d.get(k, default)\<close>\<close>
  "dict_get d k dflt = (case map_of d k of None \<Rightarrow> dflt | Some v \<Rightarrow> v)"

fun dict_set :: "'v pydict \<Rightarrow> string \<Rightarrow> 'v \<Rightarrow> 'v pydict" where
  \<comment> \<open>\<open>d[k] = v\<close>\<close>
  "dict_set [] k v = [(k, v)]"
| "dict_set ((k', v') # d) k v =
     (if k' = k then (k, v) # d else (k', v') # dict_set d k v)"

text \<open>
  \<open>request.POST\<close> is a \<open>QueryDict\<close>: the submitted pairs in order; \<open>get\<close> returns the last
  value submitted under a key.
\<close>

type_synonym querydict = "(string \<times> string) list"

definition QueryDict_get :: "querydict \<Rightarrow> string \<Rightarrow> string option" where
  "QueryDict_get d k = map_of (rev d) k"

subsection \<open>Query sets\<close>

text \<open>
  A table is the list of its rows and a query set is a filtered table.  \<open>get\<close> wants
  exactly one row.  \<open>first\<close> takes the first row of the query set in the ordering of the
  model, if there is a row; the model takes the first in table order, which is the same
  row whenever at most one row matches, as under the unique constraint on the slug
  columns.
\<close>

datatype orm_error = DoesNotExist | MultipleObjectsReturned

definition orm_get :: "'a list \<Rightarrow> orm_error + 'a" where
  "orm_get rs =
     (case rs of
        [] \<Rightarrow> Inl DoesNotExist
      | [r] \<Rightarrow> Inr r
      | _ # _ # _ \<Rightarrow> Inl MultipleObjectsReturned)"

definition orm_first :: "'a list \<Rightarrow> 'a option" where
  "orm_first rs = (case rs of [] \<Rightarrow> None | r # _ \<Rightarrow> Some r)"

definition next_pk :: "nat option list \<Rightarrow> nat" where
  \<comment> \<open>the key an auto-increment column gives the next inserted row\<close>
  "next_pk pks = Suc (fold (\<lambda>p m. case p of None \<Rightarrow> m | Some k \<Rightarrow> max k m) pks 0)"

section \<open>The data model (\<open>core/models.py\<close>)\<close>

text \<open>
  Each model is a record of the fields the modelled code reads or writes.  A primary key
  is \<open>None\<close> on an instance that has not been saved.  A decimal amount (a price with
  its two places, a subtotal, a total) is modelled by its value in cents, an integer.
\<close>

record Product =
  product_pk :: "nat option"
  product_name :: string
  product_slug :: string
  product_price :: int
  product_in_stock :: bool

record Service =
  service_pk :: "nat option"
  service_name :: string
  service_slug :: string
  service_is_active :: bool

record Event =
  event_pk :: "nat option"
  event_title :: string
  event_slug :: string
  event_capacity :: int
  event_is_active :: bool

record Booking =
  booking_pk :: "nat option"
  booking_name :: string
  booking_email :: string
  booking_date :: string
  booking_tickets :: int
  booking_event :: "nat option"
  booking_notes :: string
  booking_status :: string

record Order =
  order_pk :: "nat option"
  order_product :: "nat option"
  order_name :: string
  order_email :: string
  order_quantity :: int
  order_notes :: string
  order_status :: string

record NewsletterSubscriber =
  subscriber_pk :: "nat option"
  subscriber_email :: string

record db =
  products :: "Product list"
  services :: "Service list"
  events :: "Event list"
  bookings :: "Booking list"
  orders :: "Order list"
  subscribers :: "NewsletterSubscriber list"

subsection \<open>Event availability\<close>

text \<open>
  \<open>self.eventbookings\<close> are the bookings whose foreign key is the key of the event; the
  events the views pass in are rows of the table and have a key.
\<close>

definition tickets_sold :: "db \<Rightarrow> Event \<Rightarrow> int" where
  \<comment> \<open>\<open>sum(b.tickets for b in self.eventbookings.filter(status__in=['confirmed', 'paid']))\<close>\<close>
  "tickets_sold d e =
     sum_list (map booking_tickets
       (filter (\<lambda>b. booking_status b \<in> set [''confirmed'', ''paid''])
          (filter (\<lambda>b. booking_event b = event_pk e) (bookings d))))"

definition available_tickets :: "db \<Rightarrow> Event \<Rightarrow> int" where
  "available_tickets d e = max (event_capacity e - tickets_sold d e) 0"

subsection \<open>\<open>django.utils.text.slugify\<close>\<close>

text \<open>
  \<open>slugify(value)\<close> normalises the text to NFKD and keeps the ASCII characters of the
  result, lowers it, deletes every character that is not a word character, whitespace or
  a hyphen, replaces each run of hyphens and whitespace by one hyphen and strips hyphens
  and underscores from both ends.

  NFKD replaces a character by its compatibility decomposition and orders the combining
  marks; the marks are not ASCII, so what is kept is, character by character, the ASCII
  part of the decomposition.  For the code points of this model, \<open>0\<close> to \<open>255\<close>, that is
  the character itself below \<open>128\<close> and the entry of the table from \<open>128\<close> on: a letter
  with an accent gives the letter, the no-break space and the spacing accents give a
  space, the superscripts and fractions their digits, and the rest nothing.
\<close>

definition nfkd_table :: "string list" where
  \<comment> \<open>the ASCII part of the NFKD decomposition of the code points \<open>128\<close> to \<open>255\<close>\<close>
  "nfkd_table =
     [[], [], [], [], [], [], [], [],
      [], [], [], [], [], [], [], [],
      [], [], [], [], [], [], [], [],
      [], [], [], [], [], [], [], [],
      '' '', [], [], [], [], [], [], [],
      '' '', [], ''a'', [], [], [], [], '' '',
      [], [], ''2'', ''3'', '' '', [], [], [],
      '' '', ''1'', ''o'', [], ''14'', ''12'', ''34'', [],
      ''A'', ''A'', ''A'', ''A'', ''A'', ''A'', [], ''C'',
      ''E'', ''E'', ''E'', ''E'', ''I'', ''I'', ''I'', ''I'',
      [], ''N'', ''O'', ''O'', ''O'', ''O'', ''O'', [],
      [], ''U'', ''U'', ''U'', ''U'', ''Y'', [], [],
      ''a'', ''a'', ''a'', ''a'', ''a'', ''a'', [], ''c'',
      ''e'', ''e'', ''e'', ''e'', ''i'', ''i'', ''i'', ''i'',
      [], ''n'', ''o'', ''o'', ''o'', ''o'', ''o'', [],
      [], ''u'', ''u'', ''u'', ''u'', ''y'', [], ''y'']"

definition nfkd_ascii :: "char \<Rightarrow> string" where
  \<comment> \<open>one character through \<open>normalize('NFKD', .).encode('ascii', 'ignore').decode('ascii')\<close>\<close>
  "nfkd_ascii c =
     (if (of_char c :: nat) < 128 then [c] else nfkd_table ! ((of_char c :: nat) - 128))"

definition py_lower :: "char \<Rightarrow> char" where
  "py_lower c =
     (if 65 \<le> (of_char c :: nat) \<and> (of_char c :: nat) \<le> 90
      then ''abcdefghijklmnopqrstuvwxyz'' ! (of_char c - 65) else c)"

definition py_isword :: "char \<Rightarrow> bool" where
  \<comment> \<open>\<open>\w\<close> on ASCII: a letter, a digit or the underscore\<close>
  "py_isword c =
     (let n = (of_char c :: nat)
      in (48 \<le> n \<and> n \<le> 57) \<or> (65 \<le> n \<and> n \<le> 90) \<or> (97 \<le> n \<and> n \<le> 122) \<or> n = 95)"

definition is_sep :: "char \<Rightarrow> bool" where
  \<comment> \<open>the class \<open>[-\s]\<close>\<close>
  "is_sep c = (c = CHR ''-'' \<or> py_isspace c)"

function collapse_seps :: "string \<Rightarrow> string" where
  \<comment> \<open>\<open>re.sub(r'[-\s]+', '-', value)\<close>\<close>
  "collapse_seps [] = []"
| "collapse_seps (c # cs) =
     (if is_sep c then CHR ''-'' # collapse_seps (dropWhile is_sep cs)
      else c # collapse_seps cs)"
  by pat_completeness auto
termination
  by (relation "measure length") (auto simp: length_dropWhile_le less_Suc_eq_le)

definition strip_chars :: "(char \<Rightarrow> bool) \<Rightarrow> string \<Rightarrow> string" where
  \<comment> \<open>\<open>value.strip(chars)\<close>\<close>
  "strip_chars P s = rev (dropWhile P (rev (dropWhile P s)))"

definition slugify :: "string \<Rightarrow> string" where
  "slugify v =
     (let ascii = concat (map nfkd_ascii v);
          kept = filter (\<lambda>c. py_isword c \<or> py_isspace c \<or> c = CHR ''-'') (map py_lower ascii)
      in strip_chars (\<lambda>c. c = CHR ''-'' \<or> c = CHR ''_'') (collapse_seps kept))"

subsection \<open>\<open>_unique_slugify\<close> and the \<open>pre_save\<close> handlers\<close>

text \<open>
  The helper sees of the model's table only the primary key and the slug of each row.
  \<open>Model.objects.filter(slug=slug).exclude(pk=pk).exists()\<close>: excluding the key \<open>None\<close>
  of an unsaved instance excludes no row.
\<close>

type_synonym slug_row = "nat option \<times> string"

definition slug_exists :: "slug_row list \<Rightarrow> nat option \<Rightarrow> string \<Rightarrow> bool" where
  "slug_exists rows pk slug =
     (filter (\<lambda>r. pk = None \<or> fst r \<noteq> pk) (filter (\<lambda>r. snd r = slug) rows) \<noteq> [])"

definition suffixed :: "string \<Rightarrow> nat \<Rightarrow> string" where
  \<comment> \<open>\<open>f"{slug_base}-{counter}"\<close>\<close>
  "suffixed slug_base counter = slug_base @ ''-'' @ str_nat counter"

text \<open>
  The decimal rendering of a number determines the number, so the candidates
  \<open>slug_base-1\<close>, \<open>slug_base-2\<close>, \<dots> are pairwise different; a finite table can hold
  only finitely many of them, which is why the loop of the helper ends.
\<close>

lemma digit_val_digit_char: "d < 10 \<Longrightarrow> digit_val (digit_char d) = d"
proof -
  assume "d < 10"
  then have "d \<in> set [0, 1, 2, 3, 4, 5, 6, 7, 8, 9]"
    by (simp add: less_Suc_eq numeral_eq_Suc)
  then show ?thesis
    by (auto simp: digit_val_def digit_char_def)
qed

lemma str_nat_value: "foldl (\<lambda>a c. 10 * a + digit_val c) 0 (str_nat n) = n"
proof (induction n rule: str_nat.induct)
  case (1 n)
  show ?case
  proof (cases "n < 10")
    case True
    then show ?thesis
      by (simp add: str_nat.simps [of n] digit_val_digit_char)
  next
    case False
    then have "foldl (\<lambda>a c. 10 * a + digit_val c) 0 (str_nat (n div 10)) = n div 10"
      using "1.IH" by simp
    with False show ?thesis
      by (simp add: str_nat.simps [of n] digit_val_digit_char)
  qed
qed

lemma str_nat_inj: "str_nat a = str_nat b \<Longrightarrow> a = b"
  by (metis str_nat_value)

lemma suffixed_inj: "suffixed b j = suffixed b k \<Longrightarrow> j = k"
  by (simp add: suffixed_def str_nat_inj)

lemma finite_suffix_taken: "finite {k. slug_exists rows pk (suffixed b k)}"
proof -
  have "inj (suffixed b)"
    by (rule injI) (rule suffixed_inj)
  then have "finite (suffixed b -` (snd ` set rows))"
    by (intro finite_vimageI) simp_all
  moreover have "{k. slug_exists rows pk (suffixed b k)} \<subseteq> suffixed b -` (snd ` set rows)"
    by (force simp: slug_exists_def filter_empty_conv)
  ultimately show ?thesis
    by (rule rev_finite_subset)
qed

definition pending :: "slug_row list \<Rightarrow> nat option \<Rightarrow> string \<Rightarrow> nat \<Rightarrow> nat set" where
  \<comment> \<open>the counters from \<open>c\<close> on whose candidate is held by another row\<close>
  "pending rows pk b c = {k. c \<le> k \<and> slug_exists rows pk (suffixed b k)}"

lemma finite_pending: "finite (pending rows pk b c)"
  unfolding pending_def by (rule finite_subset [OF _ finite_suffix_taken]) auto

lemma pending_Suc: "pending rows pk b (Suc c) = pending rows pk b c - {c}"
  unfolding pending_def by auto

lemma card_pending_Suc:
  "card (pending rows pk b (Suc c)) =
     (if slug_exists rows pk (suffixed b c) then card (pending rows pk b c) - 1
      else card (pending rows pk b c))"
proof (cases "slug_exists rows pk (suffixed b c)")
  case True
  then have "c \<in> pending rows pk b c"
    by (simp add: pending_def)
  then show ?thesis
    using True by (simp add: pending_Suc finite_pending)
next
  case False
  then have "c \<notin> pending rows pk b c"
    by (simp add: pending_def)
  then show ?thesis
    using False by (simp add: pending_Suc)
qed

lemma pending_pos: "slug_exists rows pk (suffixed b c) \<Longrightarrow> 0 < card (pending rows pk b c)"
proof -
  assume "slug_exists rows pk (suffixed b c)"
  then have "c \<in> pending rows pk b c"
    by (simp add: pending_def)
  then show ?thesis
    using finite_pending [of rows pk b c] by (auto simp: card_gt_0_iff)
qed

function slug_loop :: "slug_row list \<Rightarrow> nat option \<Rightarrow> string \<Rightarrow> string \<Rightarrow> nat \<Rightarrow> string" where
  \<comment> \<open>the \<open>while\<close> loop of the helper, on its variables \<open>slug\<close> and \<open>counter\<close>\<close>
  "slug_loop rows pk slug_base slug counter =
     (if slug_exists rows pk slug
      then slug_loop rows pk slug_base (suffixed slug_base counter) (counter + 1)
      else slug)"
  by pat_completeness auto
termination
proof (relation "measure (\<lambda>(rows, pk, b, slug, c).
          2 * card (pending rows pk b c) + (if slug_exists rows pk slug then 1 else 0))")
  show "wf (measure (\<lambda>(rows, pk, b, slug, c).
          2 * card (pending rows pk b c) + (if slug_exists rows pk slug then 1 else 0)))"
    by simp
next
  fix rows :: "slug_row list" and pk :: "nat option" and slug_base slug :: string
    and counter :: nat
  assume taken: "slug_exists rows pk slug"
  show "((rows, pk, slug_base, suffixed slug_base counter, counter + 1),
         (rows, pk, slug_base, slug, counter))
        \<in> measure (\<lambda>(rows, pk, b, slug, c).
            2 * card (pending rows pk b c) + (if slug_exists rows pk slug then 1 else 0))"
  proof (cases "slug_exists rows pk (suffixed slug_base counter)")
    case True
    then show ?thesis
      using taken pending_pos [OF True] by (simp add: card_pending_Suc)
  next
    case False
    then show ?thesis
      using taken by (simp add: card_pending_Suc)
  qed
qed

declare slug_loop.simps [simp del]

definition unique_slugify :: "slug_row list \<Rightarrow> nat option \<Rightarrow> string \<Rightarrow> string" where
  \<comment> \<open>\<open>_unique_slugify(instance, value)\<close>: the slug it assigns to the instance\<close>
  "unique_slugify rows pk v = (let slug_base = slugify v in slug_loop rows pk slug_base slug_base 1)"

definition Product_rows :: "db \<Rightarrow> slug_row list" where
  "Product_rows d = map (\<lambda>p. (product_pk p, product_slug p)) (products d)"

definition Service_rows :: "db \<Rightarrow> slug_row list" where
  "Service_rows d = map (\<lambda>s. (service_pk s, service_slug s)) (services d)"

definition Event_rows :: "db \<Rightarrow> slug_row list" where
  "Event_rows d = map (\<lambda>e. (event_pk e, event_slug e)) (events d)"

definition set_event_slug :: "db \<Rightarrow> Event \<Rightarrow> Event" where
  "set_event_slug d instance =
     (if event_slug instance = []
      then instance\<lparr>event_slug :=
             unique_slugify (Event_rows d) (event_pk instance) (event_title instance)\<rparr>
      else instance)"

definition set_service_slug :: "db \<Rightarrow> Service \<Rightarrow> Service" where
  "set_service_slug d instance =
     (if service_slug instance = []
      then instance\<lparr>service_slug :=
             unique_slugify (Service_rows d) (service_pk instance) (service_name instance)\<rparr>
      else instance)"

definition set_product_slug :: "db \<Rightarrow> Product \<Rightarrow> Product" where
  "set_product_slug d instance =
     (if product_slug instance = []
      then instance\<lparr>product_slug :=
             unique_slugify (Product_rows d) (product_pk instance) (product_name instance)\<rparr>
      else instance)"

text \<open>
  \<open>Product.save()\<close> runs the \<open>pre_save\<close> handler and then writes the row: an update of the
  row with the key of the instance, an insertion otherwise.  The slug column is declared
  unique, so the write fails when another row holds the slug.
\<close>

datatype db_error = IntegrityError | OverflowError

definition Product_save :: "db \<Rightarrow> Product \<Rightarrow> db_error + db \<times> Product" where
  "Product_save d instance =
     (let inst = set_product_slug d instance
      in if slug_exists (Product_rows d) (product_pk inst) (product_slug inst)
         then Inl IntegrityError
         else if product_pk inst \<noteq> None
                 \<and> filter (\<lambda>r. product_pk r = product_pk inst) (products d) \<noteq> []
         then Inr (d\<lparr>products :=
                      map (\<lambda>r. if product_pk r = product_pk inst then inst else r) (products d)\<rparr>,
                   inst)
         else
           let saved = (if product_pk inst = None
                        then inst\<lparr>product_pk := Some (next_pk (map product_pk (products d)))\<rparr>
                        else inst)
           in Inr (d\<lparr>products := products d @ [saved]\<rparr>, saved))"

section \<open>Requests, forms and responses\<close>

text \<open>
  A request is its method, the submitted form data and the one session key the views
  use, \<open>cart\<close> (\<open>None\<close> when the session has no such key).  A view returns what it
  leaves behind (the database, the session cart) and its response; an exception that
  the view does not catch is the response \<open>Uncaught\<close> or \<open>Raised\<close>.  The notification
  mail a view sends after a successful write goes out with \<open>fail_silently=True\<close> and
  touches neither the database nor the session; it is not part of the state.
\<close>

record request =
  req_method :: string
  POST :: querydict
  session_cart :: "int pydict option"

datatype 'c response =
    Http404
  | Uncaught orm_error
  | Raised db_error
  | Redirect string
  | Render string 'c

definition get_object_or_404 :: "'a list \<Rightarrow> 'c response + 'a" where
  "get_object_or_404 rs =
     (case orm_get rs of
        Inl DoesNotExist \<Rightarrow> Inl Http404
      | Inl MultipleObjectsReturned \<Rightarrow> Inl (Uncaught MultipleObjectsReturned)
      | Inr r \<Rightarrow> Inr r)"

text \<open>
  The field-level cleaning of a form (required fields, well-formed e-mail address, date
  and numbers) is Django's and is a parameter of each view: a cleaner maps the submitted
  data to the field errors or to the cleaned data.  \<open>Form(request.POST or None)\<close> is
  unbound, and so not valid, when nothing was submitted.
\<close>

type_synonym form_errors = "(string \<times> string) list"

type_synonym 'a cleaner = "querydict \<Rightarrow> form_errors + 'a"

type_synonym 'a form = "(form_errors + 'a) option"

definition make_form :: "'a cleaner \<Rightarrow> querydict \<Rightarrow> 'a form" where
  "make_form clean post = (if post = [] then None else Some (clean post))"

definition is_valid :: "'a form \<Rightarrow> bool" where
  "is_valid form = (case form of Some (Inr _) \<Rightarrow> True | _ \<Rightarrow> False)"

definition errors_of :: "'a form \<Rightarrow> form_errors" where
  "errors_of form = (case form of Some (Inl es) \<Rightarrow> es | _ \<Rightarrow> [])"

record form_page =
  page_errors :: form_errors
  page_success :: bool

section \<open>Bookings (\<open>event_detail\<close> and \<open>booking\<close> of \<open>core/views.py\<close>)\<close>

record booking_data =
  bd_name :: string
  bd_email :: string
  bd_date :: string
  bd_tickets :: int
  bd_notes :: string

definition BookingForm_save :: "booking_data \<Rightarrow> Booking" where
  \<comment> \<open>\<open>form.save(commit=False)\<close>: a new instance from the cleaned data and the defaults\<close>
  "BookingForm_save data =
     \<lparr>booking_pk = None, booking_name = bd_name data, booking_email = bd_email data,
      booking_date = bd_date data, booking_tickets = bd_tickets data, booking_event = None,
      booking_notes = bd_notes data, booking_status = ''pending''\<rparr>"

definition Booking_save :: "db \<Rightarrow> Booking \<Rightarrow> db" where
  \<comment> \<open>\<open>booking.save()\<close> of a new instance: one inserted row\<close>
  "Booking_save d b =
     d\<lparr>bookings := bookings d @ [b\<lparr>booking_pk := Some (next_pk (map booking_pk (bookings d)))\<rparr>]\<rparr>"

definition event_detail :: "booking_data cleaner \<Rightarrow> db \<Rightarrow> request \<Rightarrow> string \<Rightarrow> db \<times> form_page response" where
  "event_detail clean d req slug =
     (case get_object_or_404 (filter (\<lambda>e. event_slug e = slug \<and> event_is_active e) (events d)) of
        Inl resp \<Rightarrow> (d, resp)
      | Inr event \<Rightarrow>
          let form = make_form clean (POST req);
              unchanged = (d, Render ''event_detail.html''
                                \<lparr>page_errors = errors_of form, page_success = False\<rparr>)
          in if req_method req = ''POST'' then
               (case form of
                  Some (Inr data) \<Rightarrow>
                    let booking = (BookingForm_save data)\<lparr>booking_event := event_pk event\<rparr>;
                        tickets_requested = booking_tickets booking
                    in if tickets_requested > available_tickets d event then
                         (d, Render ''event_detail.html''
                               \<lparr>page_errors =
                                  [(''tickets'', ''Only '' @ str_int (available_tickets d event)
                                                  @ '' tickets are available.'')],
                                page_success = False\<rparr>)
                       else
                         (Booking_save d booking,
                          Render ''event_detail.html'' \<lparr>page_errors = [], page_success = True\<rparr>)
                | _ \<Rightarrow> unchanged)
             else unchanged)"

definition booking :: "booking_data cleaner \<Rightarrow> db \<Rightarrow> request \<Rightarrow> db \<times> form_page response" where
  "booking clean d req =
     (let form = make_form clean (POST req);
          unchanged = (d, Render ''booking.html''
                            \<lparr>page_errors = errors_of form, page_success = False\<rparr>)
      in if req_method req = ''POST'' then
           (case form of
              Some (Inr data) \<Rightarrow>
                let booking0 = BookingForm_save data;
                    booking1 =
                      (case QueryDict_get (POST req) ''event_slug'' of
                         None \<Rightarrow> booking0
                       | Some event_slug' \<Rightarrow>
                           if event_slug' \<noteq> [] then
                             (case orm_first (filter (\<lambda>e. event_slug e = event_slug') (events d)) of
                                None \<Rightarrow> booking0\<lparr>booking_event := None\<rparr>
                              | Some event \<Rightarrow> booking0\<lparr>booking_event := event_pk event\<rparr>)
                           else booking0)
                in (Booking_save d booking1,
                    Render ''booking.html'' \<lparr>page_errors = [], page_success = True\<rparr>)
            | _ \<Rightarrow> unchanged)
         else unchanged)"

section \<open>The newsletter (\<open>newsletter_subscribe\<close>)\<close>

text \<open>
  \<open>NewsletterForm\<close> is a model form on \<open>NewsletterSubscriber\<close>, whose only field \<open>email\<close>
  is declared \<open>unique=True\<close>.  Validating a model form also validates the uniqueness of
  the instance it builds: after the field is cleaned, an address that a row of the table
  already holds is a field error, and the form is not valid.
\<close>

definition NewsletterForm :: "string cleaner \<Rightarrow> db \<Rightarrow> querydict \<Rightarrow> string form" where
  "NewsletterForm clean d post =
     (case make_form clean post of
        None \<Rightarrow> None
      | Some (Inl es) \<Rightarrow> Some (Inl es)
      | Some (Inr email) \<Rightarrow>
          if filter (\<lambda>s. subscriber_email s = email) (subscribers d) \<noteq> []
          then Some (Inl [(''email'', ''Newsletter subscriber with this Email already exists.'')])
          else Some (Inr email))"

definition get_or_create :: "db \<Rightarrow> string \<Rightarrow> orm_error + db \<times> NewsletterSubscriber \<times> bool" where
  \<comment> \<open>\<open>NewsletterSubscriber.objects.get_or_create(email=email)\<close>\<close>
  "get_or_create d email =
     (case orm_get (filter (\<lambda>s. subscriber_email s = email) (subscribers d)) of
        Inr s \<Rightarrow> Inr (d, s, False)
      | Inl MultipleObjectsReturned \<Rightarrow> Inl MultipleObjectsReturned
      | Inl DoesNotExist \<Rightarrow>
          let s = \<lparr>subscriber_pk = Some (next_pk (map subscriber_pk (subscribers d))),
                   subscriber_email = email\<rparr>
          in Inr (d\<lparr>subscribers := subscribers d @ [s]\<rparr>, s, True))"

definition newsletter_subscribe :: "string cleaner \<Rightarrow> db \<Rightarrow> request \<Rightarrow> db \<times> form_page response" where
  "newsletter_subscribe clean d req =
     (let form = NewsletterForm clean d (POST req);
          unchanged = (d, Render ''newsletter_signup.html''
                            \<lparr>page_errors = errors_of form, page_success = False\<rparr>)
      in if req_method req = ''POST'' then
           (case form of
              Some (Inr email) \<Rightarrow>
                (case get_or_create d email of
                   Inl e \<Rightarrow> (d, Uncaught e)
                 | Inr (d', subscriber, created) \<Rightarrow>
                     (d', Render ''newsletter_signup.html''
                            \<lparr>page_errors = [], page_success = True\<rparr>))
            | _ \<Rightarrow> unchanged)
         else unchanged)"

section \<open>The cart (\<open>cart_add\<close> and \<open>cart_view\<close>)\<close>

definition cart_add :: "db \<Rightarrow> request \<Rightarrow> string \<Rightarrow> int pydict option \<times> unit response" where
  "cart_add d req slug =
     (case get_object_or_404 (filter (\<lambda>p. product_slug p = slug) (products d)) of
        Inl resp \<Rightarrow> (session_cart req, resp)
      | Inr product \<Rightarrow>
          let qty = (case QueryDict_get (POST req) ''quantity'' of
                       None \<Rightarrow> 1
                     | Some s \<Rightarrow> (case py_int s of None \<Rightarrow> 1 | Some n \<Rightarrow> n));
              cart = (case session_cart req of None \<Rightarrow> [] | Some c \<Rightarrow> c);
              cart' = dict_set cart slug (dict_get cart slug 0 + qty)
          in (Some cart', Redirect ''cart''))"

record cart_item =
  item_product :: Product
  item_quantity :: int
  item_subtotal :: int

text \<open>
  \<open>product.price * qty\<close> is a decimal product and \<open>total += subtotal\<close> a decimal sum, each
  rounded to the precision of the context.
\<close>

fun cart_loop :: "Product list \<Rightarrow> int pydict \<Rightarrow> cart_item list \<times> int \<Rightarrow> cart_item list \<times> int" where
  \<comment> \<open>the loop over \<open>cart.items()\<close> that fills \<open>items\<close> and \<open>total\<close>\<close>
  "cart_loop ps [] (items, total') = (items, total')"
| "cart_loop ps ((slug, qty) # rest) (items, total') =
     (case orm_first (filter (\<lambda>p. product_slug p = slug \<and> product_in_stock p) ps) of
        None \<Rightarrow> cart_loop ps rest (items, total')
      | Some product \<Rightarrow>
          let subtotal = round28 (product_price product * qty)
          in cart_loop ps rest
               (items @ [\<lparr>item_product = product, item_quantity = qty, item_subtotal = subtotal\<rparr>],
                round28 (total' + subtotal)))"

record order_data =
  od_name :: string
  od_email :: string
  od_quantity :: int
  od_notes :: string

text \<open>
  \<open>Order.objects.create(...)\<close> inserts one row at once: the views run in autocommit, no
  transaction is opened anywhere.  The column \<open>quantity\<close> is a \<open>PositiveIntegerField\<close>
  of the configured SQLite store: an integer outside 64 bits cannot be bound and raises
  \<open>OverflowError\<close>, and a negative one violates the check constraint of the column and
  raises \<open>IntegrityError\<close>.  Nothing is inserted then.
\<close>

definition Order_create :: "db \<Rightarrow> Order \<Rightarrow> db_error + db" where
  "Order_create d ord =
     (if order_quantity ord < - (2 ^ 63) \<or> 2 ^ 63 \<le> order_quantity ord then Inl OverflowError
      else if order_quantity ord < 0 then Inl IntegrityError
      else Inr (d\<lparr>orders :=
                  orders d @ [ord\<lparr>order_pk := Some (next_pk (map order_pk (orders d)))\<rparr>]\<rparr>))"

fun create_orders :: "db \<Rightarrow> cart_item list \<Rightarrow> string \<Rightarrow> string \<Rightarrow> string \<Rightarrow> db \<times> db_error option" where
  \<comment> \<open>the loop \<open>for item in items: Order.objects.create(...)\<close>: the database it leaves and
      the exception that ended it, if one did\<close>
  "create_orders d [] name email notes = (d, None)"
| "create_orders d (item # rest) name email notes =
     (case Order_create d
             \<lparr>order_pk = None, order_product = product_pk (item_product item), order_name = name,
              order_email = email, order_quantity = item_quantity item, order_notes = notes,
              order_status = ''pending''\<rparr> of
        Inl e \<Rightarrow> (d, Some e)
      | Inr d' \<Rightarrow> create_orders d' rest name email notes)"

record cart_page =
  page_items :: "cart_item list"
  page_total :: int
  cart_errors :: form_errors
  cart_success :: bool

definition cart_view :: "order_data cleaner \<Rightarrow> db \<Rightarrow> request \<Rightarrow> db \<times> int pydict option \<times> cart_page response" where
  "cart_view clean d req =
     (let cart = (case session_cart req of None \<Rightarrow> [] | Some c \<Rightarrow> c);
          (items, total') = cart_loop (products d) cart ([], 0);
          form = make_form clean (POST req);
          unchanged = (d, session_cart req,
                       Render ''cart.html''
                         \<lparr>page_items = items, page_total = total', cart_errors = errors_of form,
                          cart_success = False\<rparr>)
      in if req_method req = ''POST'' \<and> items \<noteq> [] then
           (case form of
              Some (Inr data) \<Rightarrow>
                (case create_orders d items (od_name data) (od_email data) (od_notes data) of
                   (d', Some e) \<Rightarrow> (d', session_cart req, Raised e)
                 | (d', None) \<Rightarrow>
                     (d', Some [],
                      Render ''cart.html''
                        \<lparr>page_items = [], page_total = 0, cart_errors = [],
                         cart_success = True\<rparr>))
            | _ \<Rightarrow> unchanged)
         else unchanged)"

section \<open>Properties of the cart\<close>

subsection \<open>Dictionary assignment\<close>

lemma map_of_dict_set: "map_of (dict_set c k v) = (map_of c)(k \<mapsto> v)"
  by (induction c k v rule: dict_set.induct) (auto simp: fun_upd_twist)

lemma dict_get_dict_set: "dict_get (dict_set c k v) k dflt = v"
  by (simp add: dict_get_def map_of_dict_set)

lemma keys_dict_set: "fst ` set (dict_set c k v) = insert k (fst ` set c)"
  by (induction c k v rule: dict_set.induct) auto

lemma get_object_or_404_one: "get_object_or_404 [r] = Inr r"
  by (simp add: get_object_or_404_def orm_get_def)

lemma get_object_or_404_none: "get_object_or_404 [] = Inl Http404"
  by (simp add: get_object_or_404_def orm_get_def)

lemma cart_add_found:
  assumes "filter (\<lambda>p. product_slug p = s) (products d) = [p]"
  shows "cart_add d req s =
     (Some (dict_set (case session_cart req of None \<Rightarrow> [] | Some c \<Rightarrow> c) s
              (dict_get (case session_cart req of None \<Rightarrow> [] | Some c \<Rightarrow> c) s 0
               + (case QueryDict_get (POST req) ''quantity'' of
                       None \<Rightarrow> 1
                     | Some q \<Rightarrow> (case py_int q of None \<Rightarrow> 1 | Some n \<Rightarrow> n)))),
      Redirect ''cart'')"
  using assms by (simp add: cart_add_def get_object_or_404_one Let_def)

subsection \<open>Fixtures: a shop with one product\<close>

definition eggs :: Product where
  "eggs = \<lparr>product_pk = Some 1, product_name = ''Eggs'', product_slug = ''eggs'',
           product_price = 500, product_in_stock = True\<rparr>"

definition eggs_db :: db where
  "eggs_db = \<lparr>products = [eggs], services = [], events = [], bookings = [], orders = [],
              subscribers = []\<rparr>"

definition add_request :: "string \<Rightarrow> int pydict option \<Rightarrow> request" where
  \<comment> \<open>an add-to-cart request that submits the quantity \<open>q\<close> in a session whose cart is \<open>c\<close>\<close>
  "add_request q c = \<lparr>req_method = ''POST'', POST = [(''quantity'', q)], session_cart = c\<rparr>"

subsection \<open>Adding twice adds the quantities\<close>

text \<open>
  C6.  Adding a slug that is already in the cart increments its quantity: when the
  product exists and two add-to-cart requests in a row submit the positive integers
  \<open>m\<close> and \<open>n\<close> for the slug \<open>s\<close>, the cart afterwards maps \<open>s\<close> to \<open>c(s) + m + n\<close>, where
  \<open>c(s)\<close> is the quantity before (\<open>0\<close> when \<open>s\<close> was absent).
\<close>

theorem cart_add_twice_adds:
  assumes found: "filter (\<lambda>p. product_slug p = s) (products d) = [p]"
    and q1: "QueryDict_get (POST r1) ''quantity'' = Some q1" "py_int q1 = Some m"
    and q2: "QueryDict_get (POST r2) ''quantity'' = Some q2" "py_int q2 = Some n"
    and pos: "0 < m" "0 < n"
    and chain: "session_cart r2 = fst (cart_add d r1 s)"
  shows "\<exists>c2. fst (cart_add d r2 s) = Some c2 \<and>
           dict_get c2 s 0 =
             dict_get (case session_cart r1 of None \<Rightarrow> [] | Some c \<Rightarrow> c) s 0 + m + n"
  using q1 q2 chain
  by (simp add: cart_add_found [OF found] dict_get_dict_set)

text \<open>The instance of the specification: two eggs and then three make five.\<close>

theorem cart_add_twice_adds_witness:
  "\<exists>c2. fst (cart_add eggs_db
               (add_request ''3'' (fst (cart_add eggs_db (add_request ''2'' None) ''eggs'')))
               ''eggs'') = Some c2
        \<and> dict_get c2 ''eggs'' 0 = 5"
proof -
  have found: "filter (\<lambda>p. product_slug p = ''eggs'') (products eggs_db) = [eggs]"
    by (simp add: eggs_db_def eggs_def)
  have q1: "QueryDict_get (POST (add_request ''2'' None)) ''quantity'' = Some ''2''"
    by (simp add: add_request_def QueryDict_get_def)
  have q2: "QueryDict_get
              (POST (add_request ''3'' (fst (cart_add eggs_db (add_request ''2'' None) ''eggs''))))
              ''quantity'' = Some ''3''"
    by (simp add: add_request_def QueryDict_get_def)
  have i1: "py_int ''2'' = Some 2"
    by code_simp
  have i2: "py_int ''3'' = Some 3"
    by code_simp
  have chain: "session_cart (add_request ''3'' (fst (cart_add eggs_db (add_request ''2'' None) ''eggs'')))
                 = fst (cart_add eggs_db (add_request ''2'' None) ''eggs'')"
    by (simp add: add_request_def)
  have start: "dict_get (case session_cart (add_request ''2'' None) of None \<Rightarrow> [] | Some c \<Rightarrow> c)
                 ''eggs'' 0 = (0::int)"
    by (simp add: add_request_def dict_get_def)
  show ?thesis
    using cart_add_twice_adds [OF found q1 i1 q2 i2 _ _ chain] start by simp
qed

subsection \<open>The loop that resolves the cart\<close>

lemma orm_first_Some: "orm_first xs = Some x \<Longrightarrow> x \<in> set xs"
  by (cases xs) (auto simp: orm_first_def)

lemma orm_first_None: "orm_first xs = None \<longleftrightarrow> xs = []"
  by (cases xs) (simp_all add: orm_first_def)

lemma str_nat_length_le: "n < 10 ^ k \<Longrightarrow> 0 < k \<Longrightarrow> length (str_nat n) \<le> k"
proof (induction n arbitrary: k rule: str_nat.induct)
  case (1 n)
  show ?case
  proof (cases "n < 10")
    case True
    then show ?thesis
      using "1.prems" by (simp add: str_nat.simps [of n])
  next
    case False
    obtain k' where k': "k = Suc k'"
      using "1.prems" by (cases k) simp_all
    have "k' \<noteq> 0"
      using False "1.prems" k' by (cases k') simp_all
    moreover have "n div 10 < 10 ^ k'"
      using "1.prems" k' by (simp add: less_mult_imp_div_less mult.commute)
    ultimately have "length (str_nat (n div 10)) \<le> k'"
      using "1.IH" [OF False, of k'] by simp
    then show ?thesis
      using False k' by (simp add: str_nat.simps [of n])
  qed
qed

lemma round28_small: "\<bar>x\<bar> < 10 ^ 28 \<Longrightarrow> round28 x = x"
proof -
  assume "\<bar>x\<bar> < 10 ^ 28"
  then have "nat \<bar>x\<bar> < 10 ^ 28"
    by (simp add: nat_less_iff)
  then have "length (str_nat (nat \<bar>x\<bar>)) \<le> 28"
    by (rule str_nat_length_le) simp
  then show ?thesis
    by (simp add: round28_def Let_def)
qed

lemma str_nat_length_ge: "10 ^ k \<le> n \<Longrightarrow> k < length (str_nat n)"
proof (induction n arbitrary: k rule: str_nat.induct)
  case (1 n)
  show ?case
  proof (cases k)
    case 0
    then show ?thesis
      by (simp add: str_nat.simps [of n])
  next
    case (Suc k')
    then have big: "\<not> n < 10"
      using "1.prems"
      by (cases "n < 10") (auto simp: not_le dest: less_le_trans [of n 10 "10 * 10 ^ k'"])
    have "10 ^ k' \<le> n div 10"
      using "1.prems" Suc by (simp add: less_eq_div_iff_mult_less_eq mult.commute)
    then have "k' < length (str_nat (n div 10))"
      using "1.IH" [OF big] by simp
    then show ?thesis
      using big Suc by (simp add: str_nat.simps [of n])
  qed
qed

lemma round28_31:
  "10 ^ 30 \<le> \<bar>x\<bar> \<Longrightarrow> \<bar>x\<bar> < 10 ^ 31 \<Longrightarrow>
   round28 x = sgn x * int (let q = nat \<bar>x\<bar> div 1000; r = nat \<bar>x\<bar> mod 1000
                            in (if 2 * r > 1000 \<or> (2 * r = 1000 \<and> odd q) then q + 1 else q) * 1000)"
proof -
  assume lo: "10 ^ 30 \<le> \<bar>x\<bar>" and hi: "\<bar>x\<bar> < 10 ^ 31"
  have "(10::nat) ^ 30 \<le> nat \<bar>x\<bar>"
    using lo by (simp add: le_nat_iff)
  then have "30 < length (str_nat (nat \<bar>x\<bar>))"
    by (rule str_nat_length_ge)
  moreover have "nat \<bar>x\<bar> < 10 ^ 31"
    using hi by (simp add: nat_less_iff)
  then have "length (str_nat (nat \<bar>x\<bar>)) \<le> 31"
    by (rule str_nat_length_le) simp
  ultimately have "length (str_nat (nat \<bar>x\<bar>)) = 31"
    by simp
  then show ?thesis
    by (simp add: round28_def Let_def)
qed

lemma cart_loop_fst:
  "fst (cart_loop ps cart (items, t)) = items @ fst (cart_loop ps cart ([], 0))"
proof (induction cart arbitrary: items t)
  case Nil
  then show ?case by simp
next
  case (Cons e rest)
  obtain slug qty where e: "e = (slug, qty)"
    by (cases e)
  show ?case
  proof (cases "orm_first (filter (\<lambda>p. product_slug p = slug \<and> product_in_stock p) ps)")
    case None
    then show ?thesis
      using Cons.IH [of items t] by (simp add: e)
  next
    case (Some product)
    let ?sub = "round28 (product_price product * qty)"
    let ?it = "\<lparr>item_product = product, item_quantity = qty, item_subtotal = ?sub\<rparr>"
    have "cart_loop ps (e # rest) (items, t)
            = cart_loop ps rest (items @ [?it], round28 (t + ?sub))"
      by (simp add: e Some Let_def)
    moreover have "cart_loop ps (e # rest) ([], 0) = cart_loop ps rest ([?it], round28 (0 + ?sub))"
      by (simp add: e Some Let_def)
    ultimately show ?thesis
      using Cons.IH [of "items @ [?it]" "round28 (t + ?sub)"]
        Cons.IH [of "[?it]" "round28 (0 + ?sub)"]
      by simp
  qed
qed

lemma cart_loop_Cons:
  "fst (cart_loop ps ((slug, qty) # rest) ([], 0)) =
     (case orm_first (filter (\<lambda>p. product_slug p = slug \<and> product_in_stock p) ps) of
        None \<Rightarrow> fst (cart_loop ps rest ([], 0))
      | Some product \<Rightarrow>
          \<lparr>item_product = product, item_quantity = qty,
           item_subtotal = round28 (product_price product * qty)\<rparr>
          # fst (cart_loop ps rest ([], 0)))"
  by (simp add: Let_def cart_loop_fst [of ps rest "[_]"] split: option.splits)

lemma cart_loop_entries:
  "map (\<lambda>i. (product_slug (item_product i), item_quantity i)) (fst (cart_loop ps cart ([], 0)))
     = filter (\<lambda>(slug, qty). \<exists>p\<in>set ps. product_slug p = slug \<and> product_in_stock p) cart"
proof (induction cart)
  case Nil
  then show ?case by simp
next
  case (Cons e rest)
  obtain slug qty where e: "e = (slug, qty)"
    by (cases e)
  show ?case
  proof (cases "orm_first (filter (\<lambda>p. product_slug p = slug \<and> product_in_stock p) ps)")
    case None
    then have "\<not> (\<exists>p\<in>set ps. product_slug p = slug \<and> product_in_stock p)"
      by (simp add: orm_first_None filter_empty_conv)
    then show ?thesis
      using Cons.IH None by (simp add: e cart_loop_Cons del: cart_loop.simps)
  next
    case (Some product)
    then have "product \<in> set ps \<and> product_slug product = slug \<and> product_in_stock product"
      using orm_first_Some by fastforce
    then show ?thesis
      using Cons.IH Some by (auto simp: e cart_loop_Cons simp del: cart_loop.simps)
  qed
qed

lemma cart_loop_items:
  "i \<in> set (fst (cart_loop ps cart ([], 0))) \<Longrightarrow>
     item_product i \<in> set ps \<and> product_in_stock (item_product i)
     \<and> item_subtotal i = round28 (product_price (item_product i) * item_quantity i)"
proof (induction cart)
  case Nil
  then show ?case by simp
next
  case (Cons e rest)
  obtain slug qty where e: "e = (slug, qty)"
    by (cases e)
  show ?case
  proof (cases "orm_first (filter (\<lambda>p. product_slug p = slug \<and> product_in_stock p) ps)")
    case None
    then show ?thesis
      using Cons by (simp add: e cart_loop_Cons del: cart_loop.simps)
  next
    case (Some product)
    then have "product \<in> set ps \<and> product_in_stock product"
      using orm_first_Some by fastforce
    then show ?thesis
      using Cons Some by (auto simp: e cart_loop_Cons simp del: cart_loop.simps)
  qed
qed

definition exact_amount :: "cart_item \<Rightarrow> int" where
  \<comment> \<open>price times quantity of an item, in cents, not rounded\<close>
  "exact_amount i = product_price (item_product i) * item_quantity i"

lemma cart_loop_snd_exact:
  "sum_list (map (\<lambda>i. \<bar>exact_amount i\<bar>) (fst (cart_loop ps cart ([], 0)))) + \<bar>t\<bar> < 10 ^ 28 \<Longrightarrow>
   snd (cart_loop ps cart (items, t))
     = t + sum_list (map exact_amount (fst (cart_loop ps cart ([], 0))))"
proof (induction cart arbitrary: items t)
  case Nil
  then show ?case by simp
next
  case (Cons e rest)
  obtain slug qty where e: "e = (slug, qty)"
    by (cases e)
  have nonneg: "0 \<le> sum_list (map (\<lambda>i. \<bar>exact_amount i\<bar>) (fst (cart_loop ps rest ([], 0))))"
    by (rule sum_list_nonneg) auto
  show ?case
  proof (cases "orm_first (filter (\<lambda>p. product_slug p = slug \<and> product_in_stock p) ps)")
    case None
    then show ?thesis
      using Cons.IH [of t items] Cons.prems
      by (simp add: e cart_loop_Cons)
  next
    case (Some product)
    let ?x = "product_price product * qty"
    let ?it = "\<lparr>item_product = product, item_quantity = qty, item_subtotal = round28 ?x\<rparr>"
    have items: "fst (cart_loop ps (e # rest) ([], 0)) = ?it # fst (cart_loop ps rest ([], 0))"
      by (simp add: e Some cart_loop_Cons del: cart_loop.simps)
    have amount: "exact_amount ?it = ?x"
      by (simp add: exact_amount_def)
    have bound: "\<bar>?x\<bar> + sum_list (map (\<lambda>i. \<bar>exact_amount i\<bar>) (fst (cart_loop ps rest ([], 0))))
                 + \<bar>t\<bar> < 10 ^ 28"
      using Cons.prems by (simp add: items amount)
    have sub: "round28 ?x = ?x"
      using bound nonneg by (intro round28_small) linarith
    have tot: "round28 (t + ?x) = t + ?x"
      using bound nonneg by (intro round28_small) linarith
    have step: "cart_loop ps (e # rest) (items, t) = cart_loop ps rest (items @ [?it], t + ?x)"
      by (simp add: e Some Let_def sub tot)
    have "sum_list (map (\<lambda>i. \<bar>exact_amount i\<bar>) (fst (cart_loop ps rest ([], 0)))) + \<bar>t + ?x\<bar>
            < 10 ^ 28"
      using bound by linarith
    then have "snd (cart_loop ps rest (items @ [?it], t + ?x))
                 = (t + ?x) + sum_list (map exact_amount (fst (cart_loop ps rest ([], 0))))"
      by (rule Cons.IH)
    then show ?thesis
      by (simp add: step items amount del: cart_loop.simps)
  qed
qed

lemma elem_le_sum_list_abs:
  "i \<in> set xs \<Longrightarrow> \<bar>f i\<bar> \<le> sum_list (map (\<lambda>i. \<bar>f i :: int\<bar>) xs)"
proof (induction xs)
  case Nil
  then show ?case by simp
next
  case (Cons x xs)
  have "0 \<le> sum_list (map (\<lambda>i. \<bar>f i\<bar>) xs)"
    by (rule sum_list_nonneg) auto
  then show ?case
    using Cons by auto
qed

lemma cart_view_no_checkout:
  "\<not> (req_method req = ''POST'' \<and> fst (cart_loop (products d)
          (case session_cart req of None \<Rightarrow> [] | Some c \<Rightarrow> c) ([], 0)) \<noteq> []
        \<and> is_valid (make_form clean (POST req))) \<Longrightarrow>
   cart_view clean d req =
     (d, session_cart req,
      Render ''cart.html''
        \<lparr>page_items = fst (cart_loop (products d)
                          (case session_cart req of None \<Rightarrow> [] | Some c \<Rightarrow> c) ([], 0)),
         page_total = snd (cart_loop (products d)
                          (case session_cart req of None \<Rightarrow> [] | Some c \<Rightarrow> c) ([], 0)),
         cart_errors = errors_of (make_form clean (POST req)), cart_success = False\<rparr>)"
  by (auto simp: cart_view_def Let_def is_valid_def split_beta
           split: option.splits sum.splits)


subsection \<open>Fixtures: a shop with three products\<close>

definition chicks :: Product where
  "chicks = \<lparr>product_pk = Some 2, product_name = ''Chicks'', product_slug = ''chicks'',
             product_price = 350, product_in_stock = True\<rparr>"

definition plants :: Product where
  "plants = \<lparr>product_pk = Some 3, product_name = ''Plants'', product_slug = ''plants'',
             product_price = 1200, product_in_stock = False\<rparr>"

definition shop_db :: db where
  "shop_db = \<lparr>products = [eggs, chicks, plants], services = [], events = [], bookings = [],
              orders = [], subscribers = []\<rparr>"

definition jane :: order_data where
  "jane = \<lparr>od_name = ''Jane'', od_email = ''jane@x.com'', od_quantity = 1, od_notes = []\<rparr>"

definition jane_form :: "order_data cleaner" where
  \<comment> \<open>the cleaning of Jane's well-formed order form\<close>
  "jane_form post = Inr jane"

subsection \<open>Resolving the cart\<close>

text \<open>
  C4, within the precision of decimal arithmetic.  Resolving a cart against the
  catalogue yields, in cart order, one entry
  for each cart slug that has a product marked in stock, and none for any other slug;
  each entry carries such a product, the cart's quantity and as subtotal the decimal
  product of price and quantity.  Where the amounts price times quantity of the entries
  add up, in absolute value, to less than \<open>10 ^ 28\<close> cents, nothing is rounded: every
  subtotal is price times quantity and the total is the sum of the subtotals.  Showing
  the cart leaves the cart of the session as it was, dropped entries included.
\<close>

theorem cart_resolution:
  "let cart = (case session_cart req of None \<Rightarrow> [] | Some c \<Rightarrow> c);
       items = fst (cart_loop (products d) cart ([], 0));
       total' = snd (cart_loop (products d) cart ([], 0))
   in map (\<lambda>i. (product_slug (item_product i), item_quantity i)) items
        = filter (\<lambda>(slug, qty). \<exists>p\<in>set (products d). product_slug p = slug \<and> product_in_stock p)
            cart
      \<and> (\<forall>i\<in>set items.
            item_product i \<in> set (products d) \<and> product_in_stock (item_product i)
            \<and> item_subtotal i = round28 (product_price (item_product i) * item_quantity i))
      \<and> (sum_list (map (\<lambda>i. \<bar>product_price (item_product i) * item_quantity i\<bar>) items) < 10 ^ 28
           \<longrightarrow> (\<forall>i\<in>set items.
                  item_subtotal i = product_price (item_product i) * item_quantity i)
               \<and> total' = sum_list (map item_subtotal items))
      \<and> (req_method req \<noteq> ''POST'' \<longrightarrow>
            cart_view clean d req =
              (d, session_cart req,
               Render ''cart.html''
                 \<lparr>page_items = items, page_total = total',
                  cart_errors = errors_of (make_form clean (POST req)), cart_success = False\<rparr>))"
  unfolding Let_def
proof (intro conjI ballI impI)
  let ?cart = "case session_cart req of None \<Rightarrow> [] | Some c \<Rightarrow> c"
  let ?items = "fst (cart_loop (products d) ?cart ([], 0))"
  show "map (\<lambda>i. (product_slug (item_product i), item_quantity i)) ?items
        = filter (\<lambda>(slug, qty). \<exists>p\<in>set (products d). product_slug p = slug \<and> product_in_stock p)
            ?cart"
    by (rule cart_loop_entries)
  {
    fix i
    assume i: "i \<in> set ?items"
    show "item_product i \<in> set (products d)"
      using cart_loop_items [OF i] by simp
    show "product_in_stock (item_product i)"
      using cart_loop_items [OF i] by simp
    show "item_subtotal i = round28 (product_price (item_product i) * item_quantity i)"
      using cart_loop_items [OF i] by simp
  }
  {
    assume "sum_list (map (\<lambda>i. \<bar>product_price (item_product i) * item_quantity i\<bar>) ?items)
              < 10 ^ 28"
    then have bound: "sum_list (map (\<lambda>i. \<bar>exact_amount i\<bar>) ?items) < 10 ^ 28"
      by (simp add: exact_amount_def)
    have exact: "item_subtotal i = exact_amount i" if i: "i \<in> set ?items" for i
    proof -
      have "\<bar>exact_amount i\<bar> < 10 ^ 28"
        using elem_le_sum_list_abs [OF i, of exact_amount] bound by linarith
      then have "round28 (exact_amount i) = exact_amount i"
        by (rule round28_small)
      then show ?thesis
        using cart_loop_items [OF i] by (simp add: exact_amount_def)
    qed
    {
      fix i
      assume "i \<in> set ?items"
      then show "item_subtotal i = product_price (item_product i) * item_quantity i"
        using exact by (simp add: exact_amount_def)
    }
    have "snd (cart_loop (products d) ?cart ([], 0)) = 0 + sum_list (map exact_amount ?items)"
      using bound by (intro cart_loop_snd_exact) simp
    also have "map exact_amount ?items = map item_subtotal ?items"
      using exact by (intro map_cong) simp_all
    finally show "snd (cart_loop (products d) ?cart ([], 0)) = sum_list (map item_subtotal ?items)"
      by simp
  }
  assume "req_method req \<noteq> ''POST''"
  then show "cart_view clean d req =
      (d, session_cart req,
       Render ''cart.html''
         \<lparr>page_items = ?items, page_total = snd (cart_loop (products d) ?cart ([], 0)),
          cart_errors = errors_of (make_form clean (POST req)), cart_success = False\<rparr>)"
    by (intro cart_view_no_checkout) simp
qed

text \<open>
  A cart with eggs (in stock), plants (out of stock) and a slug of no product: only the
  eggs are listed, the total is their subtotal, and the session keeps all three entries.
\<close>

theorem cart_resolution_witness:
  "cart_view jane_form shop_db
     \<lparr>req_method = ''GET'', POST = [],
      session_cart = Some [(''eggs'', 2), (''plants'', 1), (''ghost'', 4)]\<rparr>
   = (shop_db, Some [(''eggs'', 2), (''plants'', 1), (''ghost'', 4)],
      Render ''cart.html''
        \<lparr>page_items = [\<lparr>item_product = eggs, item_quantity = 2, item_subtotal = 1000\<rparr>],
         page_total = 1000, cart_errors = [], cart_success = False\<rparr>)
   \<and> sum_list (map (\<lambda>i. \<bar>product_price (item_product i) * item_quantity i\<bar>)
        (fst (cart_loop (products shop_db) [(''eggs'', 2), (''plants'', 1), (''ghost'', 4)] ([], 0))))
       < 10 ^ 28
   \<and> sum_list (map item_subtotal
        (fst (cart_loop (products shop_db) [(''eggs'', 2), (''plants'', 1), (''ghost'', 4)] ([], 0))))
       = 1000"
proof -
  let ?req = "\<lparr>req_method = ''GET'', POST = [],
               session_cart = Some [(''eggs'', 2), (''plants'', 1), (''ghost'', 4)]\<rparr>"
  have loop: "cart_loop (products shop_db) [(''eggs'', 2), (''plants'', 1), (''ghost'', 4)] ([], 0)
                = ([\<lparr>item_product = eggs, item_quantity = 2, item_subtotal = 1000\<rparr>], 1000)"
    by code_simp
  have price: "product_price eggs = 500"
    by (simp add: eggs_def)
  have bound: "sum_list (map (\<lambda>i. \<bar>product_price (item_product i) * item_quantity i\<bar>)
        (fst (cart_loop (products shop_db) [(''eggs'', 2), (''plants'', 1), (''ghost'', 4)] ([], 0))))
       < 10 ^ 28"
    by (simp add: loop price del: cart_loop.simps)
  have view: "cart_view jane_form shop_db ?req
     = (shop_db, Some [(''eggs'', 2), (''plants'', 1), (''ghost'', 4)],
        Render ''cart.html''
          \<lparr>page_items = [\<lparr>item_product = eggs, item_quantity = 2, item_subtotal = 1000\<rparr>],
           page_total = 1000, cart_errors = [], cart_success = False\<rparr>)"
    using cart_resolution [of ?req shop_db jane_form]
    by (simp add: Let_def loop make_form_def errors_of_def del: cart_loop.simps)
  have total: "sum_list (map item_subtotal
        (fst (cart_loop (products shop_db) [(''eggs'', 2), (''plants'', 1), (''ghost'', 4)] ([], 0))))
       = 1000"
    using cart_resolution [of ?req shop_db jane_form] bound
    by (simp add: Let_def loop del: cart_loop.simps)
  show ?thesis
    by (rule conjI [OF view conjI [OF bound total]])
qed

text \<open>
  The claim as it stands fails where the product is rounded: eggs at 5.00 in the
  quantity \<open>10 ^ 28 + 1\<close>, which add-to-cart accepts, come to \<open>5 * 10 ^ 30 + 500\<close> cents,
  a number of 31 digits, and the subtotal is \<open>5 * 10 ^ 30\<close> cents.
\<close>

theorem cart_resolution_counterexample:
  "fst (cart_loop (products eggs_db) [(''eggs'', 10 ^ 28 + 1)] ([], 0))
     = [\<lparr>item_product = eggs, item_quantity = 10 ^ 28 + 1, item_subtotal = 5 * 10 ^ 30\<rparr>]
   \<and> product_price eggs * (10 ^ 28 + 1) = 5 * 10 ^ 30 + 500
   \<and> (\<exists>i\<in>set (fst (cart_loop (products eggs_db) [(''eggs'', 10 ^ 28 + 1)] ([], 0))).
         item_subtotal i \<noteq> product_price (item_product i) * item_quantity i)"
proof -
  have found: "orm_first (filter (\<lambda>p. product_slug p = ''eggs'' \<and> product_in_stock p)
                            (products eggs_db)) = Some eggs"
    by (simp add: eggs_db_def eggs_def orm_first_def)
  have price: "product_price eggs = 500"
    by (simp add: eggs_def)
  have "round28 (500 * (10 ^ 28 + 1)) = 5 * 10 ^ 30"
    by (simp add: round28_31 Let_def)
  then have rounded: "round28 (product_price eggs * (10 ^ 28 + 1)) = 5 * 10 ^ 30"
    by (simp only: price)
  have loop: "fst (cart_loop (products eggs_db) [(''eggs'', 10 ^ 28 + 1)] ([], 0))
     = [\<lparr>item_product = eggs, item_quantity = 10 ^ 28 + 1, item_subtotal = 5 * 10 ^ 30\<rparr>]"
    by (simp only: cart_loop_Cons found rounded option.case cart_loop.simps(1) fst_conv)
  have amount: "product_price eggs * (10 ^ 28 + 1) = 5 * 10 ^ 30 + 500"
    by (simp add: price)
  have differ: "\<exists>i\<in>set (fst (cart_loop (products eggs_db) [(''eggs'', 10 ^ 28 + 1)] ([], 0))).
         item_subtotal i \<noteq> product_price (item_product i) * item_quantity i"
    by (subst loop) (simp add: price)
  show ?thesis
    by (rule conjI [OF loop conjI [OF amount differ]])
qed

subsection \<open>What add-to-cart checks\<close>

text \<open>
  C10.  Add-to-cart changes the cart only for the slug of an existing product: when no
  product has the slug, the response is not-found and the cart of the session is as
  before.  The lookup does not read \<open>in_stock\<close>: the slug of a product is put into the
  cart whether the product is in stock or not, and the entry of a product that is out
  of stock is left out only when the cart is resolved.
\<close>

theorem cart_add_checks_existence_only:
  "(filter (\<lambda>p. product_slug p = s) (products d) = [] \<longrightarrow>
      cart_add d req s = (session_cart req, Http404))
   \<and> (filter (\<lambda>p. product_slug p = s) (products d) = [p] \<longrightarrow>
        (\<exists>cart'. cart_add d req s = (Some cart', Redirect ''cart'')
           \<and> s \<in> fst ` set cart'
           \<and> (\<not> product_in_stock p \<longrightarrow>
                s \<notin> (\<lambda>i. product_slug (item_product i))
                        ` set (fst (cart_loop (products d) cart' ([], 0))))))"
proof (intro conjI impI)
  assume "filter (\<lambda>p. product_slug p = s) (products d) = []"
  then show "cart_add d req s = (session_cart req, Http404)"
    by (simp add: cart_add_def get_object_or_404_none)
next
  assume found: "filter (\<lambda>p. product_slug p = s) (products d) = [p]"
  let ?cart = "case session_cart req of None \<Rightarrow> [] | Some c \<Rightarrow> c"
  let ?qty = "case QueryDict_get (POST req) ''quantity'' of
                None \<Rightarrow> 1
              | Some q \<Rightarrow> (case py_int q of None \<Rightarrow> 1 | Some n \<Rightarrow> n)"
  let ?cart' = "dict_set ?cart s (dict_get ?cart s 0 + ?qty)"
  have added: "cart_add d req s = (Some ?cart', Redirect ''cart'')"
    by (rule cart_add_found [OF found])
  have key: "s \<in> fst ` set ?cart'"
    by (simp add: keys_dict_set)
  have dropped: "s \<notin> (\<lambda>i. product_slug (item_product i))
                        ` set (fst (cart_loop (products d) ?cart' ([], 0)))"
    if out: "\<not> product_in_stock p"
  proof
    assume "s \<in> (\<lambda>i. product_slug (item_product i))
                   ` set (fst (cart_loop (products d) ?cart' ([], 0)))"
    then obtain i where i: "i \<in> set (fst (cart_loop (products d) ?cart' ([], 0)))"
      and slug: "product_slug (item_product i) = s"
      by auto
    have "item_product i \<in> set (filter (\<lambda>p. product_slug p = s) (products d))"
      using cart_loop_items [OF i] slug by simp
    then have "item_product i = p"
      by (simp only: found) simp
    then show False
      using cart_loop_items [OF i] out by simp
  qed
  show "\<exists>cart'. cart_add d req s = (Some cart', Redirect ''cart'')
           \<and> s \<in> fst ` set cart'
           \<and> (\<not> product_in_stock p \<longrightarrow>
                s \<notin> (\<lambda>i. product_slug (item_product i))
                        ` set (fst (cart_loop (products d) cart' ([], 0))))"
    using added key dropped by blast
qed

text \<open>
  In the shop, the slug of no product is refused and the cart kept, while the plants,
  which are out of stock, go into the cart and are not listed when it is resolved.
\<close>

theorem cart_add_checks_existence_only_witness:
  "cart_add shop_db (add_request ''1'' (Some [(''eggs'', 2)])) ''ghost''
     = (Some [(''eggs'', 2)], Http404)
   \<and> cart_add shop_db (add_request ''1'' (Some [(''eggs'', 2)])) ''plants''
     = (Some [(''eggs'', 2), (''plants'', 1)], Redirect ''cart'')
   \<and> ''plants'' \<notin> (\<lambda>i. product_slug (item_product i))
        ` set (fst (cart_loop (products shop_db) [(''eggs'', 2), (''plants'', 1)] ([], 0)))"
proof -
  have none: "filter (\<lambda>p. product_slug p = ''ghost'') (products shop_db) = []"
    by (simp add: shop_db_def eggs_def chicks_def plants_def)
  have one: "filter (\<lambda>p. product_slug p = ''plants'') (products shop_db) = [plants]"
    by (simp add: shop_db_def eggs_def chicks_def plants_def)
  have out: "\<not> product_in_stock plants"
    by (simp add: plants_def)
  have i1: "py_int ''1'' = Some 1"
    by code_simp
  have added: "cart_add shop_db (add_request ''1'' (Some [(''eggs'', 2)])) ''plants''
                 = (Some [(''eggs'', 2), (''plants'', 1)], Redirect ''cart'')"
    by (simp add: cart_add_found [OF one] add_request_def QueryDict_get_def dict_get_def i1)
  show ?thesis
    using cart_add_checks_existence_only
            [of "''ghost''" shop_db "add_request ''1'' (Some [(''eggs'', 2)])" plants]
          cart_add_checks_existence_only
            [of "''plants''" shop_db "add_request ''1'' (Some [(''eggs'', 2)])" plants]
          none one out added
    by (simp add: add_request_def del: cart_loop.simps)
qed

subsection \<open>Quantities that are not positive\<close>

text \<open>
  C5 at its failing inputs.  The quantity falls back to \<open>1\<close> only when the field is
  missing or \<open>int\<close> raises; a submitted \<open>-3\<close> or \<open>0\<close> is an integer and is added as it
  is, so the cart then holds a quantity below \<open>1\<close>.
\<close>

theorem cart_add_keeps_nonpositive_quantity:
  "fst (cart_add eggs_db (add_request ''-3'' None) ''eggs'') = Some [(''eggs'', - 3)]
   \<and> fst (cart_add eggs_db (add_request ''0'' None) ''eggs'') = Some [(''eggs'', 0)]"
proof -
  have found: "filter (\<lambda>p. product_slug p = ''eggs'') (products eggs_db) = [eggs]"
    by (simp add: eggs_db_def eggs_def)
  have i1: "py_int ''-3'' = Some (- 3)"
    by code_simp
  have i2: "py_int ''0'' = Some 0"
    by code_simp
  show ?thesis
    by (simp add: cart_add_found [OF found] add_request_def QueryDict_get_def dict_get_def i1 i2)
qed

subsection \<open>Checkout\<close>









section \<open>Properties of the booking views\<close>

subsection \<open>Fixtures: the Harvest Fest\<close>

definition harvest_fest :: Event where
  "harvest_fest = \<lparr>event_pk = Some 1, event_title = ''Harvest Fest'',
                   event_slug = ''harvest-fest'', event_capacity = 10, event_is_active = True\<rparr>"

definition harvest_db :: db where
  "harvest_db =
     \<lparr>products = [], services = [], events = [harvest_fest],
      bookings = [\<lparr>booking_pk = Some 1, booking_name = ''Bob'', booking_email = ''bob@x.com'',
                   booking_date = ''2026-10-01'', booking_tickets = 8, booking_event = Some 1,
                   booking_notes = [], booking_status = ''confirmed''\<rparr>],
      orders = [], subscribers = []\<rparr>"

definition ann :: booking_data where
  "ann = \<lparr>bd_name = ''Ann'', bd_email = ''ann@x.com'', bd_date = ''2026-10-01'',
          bd_tickets = 3, bd_notes = []\<rparr>"

definition ann_form :: "booking_data cleaner" where
  \<comment> \<open>the cleaning of Ann's well-formed booking form, which asks for three tickets\<close>
  "ann_form post = Inr ann"

subsection \<open>The guard of the event page\<close>

lemma tickets_sold_Booking_save:
  "booking_status b = ''pending'' \<Longrightarrow> tickets_sold (Booking_save d b) e = tickets_sold d e"
  by (simp add: tickets_sold_def Booking_save_def)

text \<open>
  C2.  A valid booking form posted on the page of the active event \<open>e\<close> asks for \<open>t\<close>
  tickets.  The tickets available are \<open>max (capacity - sold) 0\<close>, where \<open>sold\<close> adds up the
  tickets of the bookings of \<open>e\<close> whose status is confirmed or paid.  If \<open>t\<close> exceeds
  them, the view answers with the error \<open>Only N tickets are available.\<close> on the field
  \<open>tickets\<close>, \<open>N\<close> being the tickets available, and the database is as before; otherwise
  it appends the booking, pending and tied to \<open>e\<close>.  In both cases the tickets sold of
  \<open>e\<close> are as before.
\<close>

theorem event_detail_guard:
  assumes event: "filter (\<lambda>e. event_slug e = slug \<and> event_is_active e) (events d) = [e]"
    and post: "req_method req = ''POST''"
    and form: "make_form clean (POST req) = Some (Inr data)"
  shows "available_tickets d e
           = max (event_capacity e
                  - sum_list (map booking_tickets
                      (filter (\<lambda>b. booking_event b = event_pk e
                                 \<and> (booking_status b = ''confirmed'' \<or> booking_status b = ''paid''))
                         (bookings d)))) 0
         \<and> (if bd_tickets data > available_tickets d e
             then event_detail clean d req slug =
                    (d, Render ''event_detail.html''
                          \<lparr>page_errors =
                             [(''tickets'', ''Only '' @ str_int (available_tickets d e)
                                             @ '' tickets are available.'')],
                           page_success = False\<rparr>)
             else event_detail clean d req slug =
                    (d\<lparr>bookings := bookings d @
                        [\<lparr>booking_pk = Some (next_pk (map booking_pk (bookings d))),
                          booking_name = bd_name data, booking_email = bd_email data,
                          booking_date = bd_date data, booking_tickets = bd_tickets data,
                          booking_event = event_pk e, booking_notes = bd_notes data,
                          booking_status = ''pending''\<rparr>]\<rparr>,
                     Render ''event_detail.html'' \<lparr>page_errors = [], page_success = True\<rparr>))
         \<and> tickets_sold (fst (event_detail clean d req slug)) e = tickets_sold d e"
proof (intro conjI)
  have "filter (\<lambda>b. booking_status b \<in> set [''confirmed'', ''paid''])
          (filter (\<lambda>b. booking_event b = event_pk e) (bookings d))
        = filter (\<lambda>b. booking_event b = event_pk e
                     \<and> (booking_status b = ''confirmed'' \<or> booking_status b = ''paid''))
            (bookings d)"
    by (simp add: conj_commute)
  then show "available_tickets d e
           = max (event_capacity e
                  - sum_list (map booking_tickets
                      (filter (\<lambda>b. booking_event b = event_pk e
                                 \<and> (booking_status b = ''confirmed'' \<or> booking_status b = ''paid''))
                         (bookings d)))) 0"
    by (simp only: available_tickets_def tickets_sold_def)
next
  show "if bd_tickets data > available_tickets d e
        then event_detail clean d req slug =
               (d, Render ''event_detail.html''
                     \<lparr>page_errors =
                        [(''tickets'', ''Only '' @ str_int (available_tickets d e)
                                        @ '' tickets are available.'')],
                      page_success = False\<rparr>)
        else event_detail clean d req slug =
               (d\<lparr>bookings := bookings d @
                   [\<lparr>booking_pk = Some (next_pk (map booking_pk (bookings d))),
                     booking_name = bd_name data, booking_email = bd_email data,
                     booking_date = bd_date data, booking_tickets = bd_tickets data,
                     booking_event = event_pk e, booking_notes = bd_notes data,
                     booking_status = ''pending''\<rparr>]\<rparr>,
                Render ''event_detail.html'' \<lparr>page_errors = [], page_success = True\<rparr>)"
    using post form
    by (simp add: event_detail_def event get_object_or_404_one Let_def BookingForm_save_def
          Booking_save_def)
next
  show "tickets_sold (fst (event_detail clean d req slug)) e = tickets_sold d e"
    using post form
    by (simp add: event_detail_def event get_object_or_404_one Let_def BookingForm_save_def
          tickets_sold_Booking_save)
qed

text \<open>The scenario of the specification: ten places, eight sold, three asked for.\<close>

theorem event_detail_guard_witness:
  "available_tickets harvest_db harvest_fest = 2
   \<and> event_detail ann_form harvest_db
        \<lparr>req_method = ''POST'', POST = [(''tickets'', ''3'')], session_cart = None\<rparr>
        ''harvest-fest''
     = (harvest_db,
        Render ''event_detail.html''
          \<lparr>page_errors = [(''tickets'', ''Only 2 tickets are available.'')],
           page_success = False\<rparr>)"
proof -
  let ?req = "\<lparr>req_method = ''POST'', POST = [(''tickets'', ''3'')], session_cart = None\<rparr>"
  have event: "filter (\<lambda>e. event_slug e = ''harvest-fest'' \<and> event_is_active e) (events harvest_db)
                 = [harvest_fest]"
    by (simp add: harvest_db_def harvest_fest_def)
  have post: "req_method ?req = ''POST''"
    by simp
  have form: "make_form ann_form (POST ?req) = Some (Inr ann)"
    by (simp add: make_form_def ann_form_def)
  have avail: "available_tickets harvest_db harvest_fest = 2"
    by (simp add: available_tickets_def tickets_sold_def harvest_db_def harvest_fest_def)
  have two: "str_int 2 = ''2''"
    by (simp add: str_int_def str_nat.simps digit_char_def)
  have asked: "bd_tickets ann = 3"
    by (simp add: ann_def)
  show ?thesis
    using event_detail_guard [OF event post form] avail two asked by simp
qed

subsection \<open>The general booking form\<close>

text \<open>
  C1 at its failing input.  The general booking view attaches the event named by
  \<open>event_slug\<close> and saves the booking without looking at the tickets available: a valid
  form that asks for more tickets than the event has left is stored, and the visitor is
  told it succeeded.
\<close>

theorem booking_skips_guard:
  assumes post: "req_method req = ''POST''"
    and form: "make_form clean (POST req) = Some (Inr data)"
    and slug: "QueryDict_get (POST req) ''event_slug'' = Some s" "s \<noteq> []"
    and event: "filter (\<lambda>e. event_slug e = s) (events d) = e # es"
    and over: "bd_tickets data > available_tickets d e"
  shows "booking clean d req =
           (d\<lparr>bookings := bookings d @
               [\<lparr>booking_pk = Some (next_pk (map booking_pk (bookings d))),
                 booking_name = bd_name data, booking_email = bd_email data,
                 booking_date = bd_date data, booking_tickets = bd_tickets data,
                 booking_event = event_pk e, booking_notes = bd_notes data,
                 booking_status = ''pending''\<rparr>]\<rparr>,
            Render ''booking.html'' \<lparr>page_errors = [], page_success = True\<rparr>)"
  using post form slug
  by (simp add: booking_def event orm_first_def Let_def BookingForm_save_def Booking_save_def)

text \<open>
  The Harvest Fest has two tickets left; three tickets asked for through the general
  form, with the event attached, are booked.
\<close>

theorem booking_skips_guard_witness:
  "available_tickets harvest_db harvest_fest = 2
   \<and> booking ann_form harvest_db
        \<lparr>req_method = ''POST'',
         POST = [(''tickets'', ''3''), (''event_slug'', ''harvest-fest'')], session_cart = None\<rparr>
     = (harvest_db\<lparr>bookings := bookings harvest_db @
          [\<lparr>booking_pk = Some 2, booking_name = ''Ann'', booking_email = ''ann@x.com'',
            booking_date = ''2026-10-01'', booking_tickets = 3, booking_event = Some 1,
            booking_notes = [], booking_status = ''pending''\<rparr>]\<rparr>,
        Render ''booking.html'' \<lparr>page_errors = [], page_success = True\<rparr>)"
proof -
  let ?req = "\<lparr>req_method = ''POST'',
               POST = [(''tickets'', ''3''), (''event_slug'', ''harvest-fest'')],
               session_cart = None\<rparr>"
  have post: "req_method ?req = ''POST''"
    by simp
  have form: "make_form ann_form (POST ?req) = Some (Inr ann)"
    by (simp add: make_form_def ann_form_def)
  have slug: "QueryDict_get (POST ?req) ''event_slug'' = Some ''harvest-fest''"
    by (simp add: QueryDict_get_def)
  have event: "filter (\<lambda>e. event_slug e = ''harvest-fest'') (events harvest_db) = harvest_fest # []"
    by (simp add: harvest_db_def harvest_fest_def)
  have avail: "available_tickets harvest_db harvest_fest = 2"
    by (simp add: available_tickets_def tickets_sold_def harvest_db_def harvest_fest_def)
  have over: "bd_tickets ann > available_tickets harvest_db harvest_fest"
    by (simp add: avail ann_def)
  have key: "next_pk (map booking_pk (bookings harvest_db)) = 2"
    by (simp add: next_pk_def harvest_db_def)
  have fields: "bd_name ann = ''Ann'' \<and> bd_email ann = ''ann@x.com'' \<and> bd_date ann = ''2026-10-01''
                \<and> bd_tickets ann = 3 \<and> bd_notes ann = [] \<and> event_pk harvest_fest = Some 1"
    by (simp add: ann_def harvest_fest_def)
  show ?thesis
    using booking_skips_guard [OF post form slug _ event over] avail key fields by simp
qed

section \<open>Properties of the newsletter signup\<close>

text \<open>
  C9 at its failing input.  When a row of the table already holds the cleaned address,
  the model form is not valid, so the view never reaches \<open>get_or_create\<close>: the table is
  as before and no error escapes, but the page is rendered with \<open>success\<close> false and the
  error that a subscriber with this address already exists.
\<close>

theorem newsletter_duplicate_not_success:
  assumes post: "req_method req = ''POST''"
    and form: "make_form clean (POST req) = Some (Inr email)"
    and held: "filter (\<lambda>s. subscriber_email s = email) (subscribers d) \<noteq> []"
  shows "newsletter_subscribe clean d req =
           (d, Render ''newsletter_signup.html''
                 \<lparr>page_errors =
                    [(''email'', ''Newsletter subscriber with this Email already exists.'')],
                  page_success = False\<rparr>)"
  using post form held
  by (simp add: newsletter_subscribe_def NewsletterForm_def Let_def errors_of_def)

definition address_form :: "string cleaner" where
  \<comment> \<open>the cleaning of a form whose field \<open>email\<close> holds a well-formed address\<close>
  "address_form post = (case QueryDict_get post ''email'' of
                          None \<Rightarrow> Inl [(''email'', ''This field is required.'')]
                        | Some a \<Rightarrow> Inr a)"

definition subscribe_request :: "string \<Rightarrow> request" where
  "subscribe_request a = \<lparr>req_method = ''POST'', POST = [(''email'', a)], session_cart = None\<rparr>"

definition no_subscribers :: db where
  "no_subscribers = \<lparr>products = [], services = [], events = [], bookings = [], orders = [],
                     subscribers = []\<rparr>"

text \<open>
  Subscribing \<open>a@example.com\<close> to the empty table stores one row and reports success;
  subscribing it again leaves the one row and reports the error.
\<close>

theorem newsletter_duplicate_not_success_witness:
  "newsletter_subscribe address_form no_subscribers (subscribe_request ''a@example.com'')
     = (no_subscribers\<lparr>subscribers :=
           [\<lparr>subscriber_pk = Some 1, subscriber_email = ''a@example.com''\<rparr>]\<rparr>,
        Render ''newsletter_signup.html'' \<lparr>page_errors = [], page_success = True\<rparr>)
   \<and> newsletter_subscribe address_form
        (no_subscribers\<lparr>subscribers :=
           [\<lparr>subscriber_pk = Some 1, subscriber_email = ''a@example.com''\<rparr>]\<rparr>)
        (subscribe_request ''a@example.com'')
     = (no_subscribers\<lparr>subscribers :=
           [\<lparr>subscriber_pk = Some 1, subscriber_email = ''a@example.com''\<rparr>]\<rparr>,
        Render ''newsletter_signup.html''
          \<lparr>page_errors =
             [(''email'', ''Newsletter subscriber with this Email already exists.'')],
           page_success = False\<rparr>)"
proof -
  let ?d1 = "no_subscribers\<lparr>subscribers :=
               [\<lparr>subscriber_pk = Some 1, subscriber_email = ''a@example.com''\<rparr>]\<rparr>"
  have post: "req_method (subscribe_request ''a@example.com'') = ''POST''"
    by (simp add: subscribe_request_def)
  have form: "make_form address_form (POST (subscribe_request ''a@example.com''))
                = Some (Inr ''a@example.com'')"
    by (simp add: make_form_def address_form_def subscribe_request_def QueryDict_get_def)
  have held: "filter (\<lambda>s. subscriber_email s = ''a@example.com'') (subscribers ?d1) \<noteq> []"
    by simp
  have first: "newsletter_subscribe address_form no_subscribers (subscribe_request ''a@example.com'')
                 = (?d1, Render ''newsletter_signup.html'' \<lparr>page_errors = [], page_success = True\<rparr>)"
    using post form
    by (simp add: newsletter_subscribe_def NewsletterForm_def get_or_create_def orm_get_def
          next_pk_def no_subscribers_def Let_def)
  show ?thesis
    using newsletter_duplicate_not_success [OF post form held] first by simp
qed

section \<open>Properties of the slug assignment\<close>

subsection \<open>The loop of the helper\<close>

lemma slug_exists_iff:
  "slug_exists rows pk s \<longleftrightarrow> (\<exists>r\<in>set rows. snd r = s \<and> (pk = None \<or> fst r \<noteq> pk))"
  by (auto simp: slug_exists_def filter_empty_conv)

lemma slug_loop_result:
  "if slug_exists rows pk slug
   then \<exists>k\<ge>c. slug_loop rows pk b slug c = suffixed b k
          \<and> \<not> slug_exists rows pk (suffixed b k)
          \<and> (\<forall>j. c \<le> j \<and> j < k \<longrightarrow> slug_exists rows pk (suffixed b j))
   else slug_loop rows pk b slug c = slug"
proof (induction rows pk b slug c rule: slug_loop.induct)
  case (1 rows pk b slug c)
  show ?case
  proof (cases "slug_exists rows pk slug")
    case False
    then show ?thesis
      by (simp add: slug_loop.simps [of rows pk b slug c])
  next
    case True
    have unfold: "slug_loop rows pk b slug c = slug_loop rows pk b (suffixed b c) (c + 1)"
      using True by (simp add: slug_loop.simps [of rows pk b slug c])
    show ?thesis
    proof (cases "slug_exists rows pk (suffixed b c)")
      case False
      then have "slug_loop rows pk b (suffixed b c) (c + 1) = suffixed b c"
        using "1.IH" [OF True] by simp
      then have "c \<le> c \<and> slug_loop rows pk b slug c = suffixed b c
                 \<and> \<not> slug_exists rows pk (suffixed b c)
                 \<and> (\<forall>j. c \<le> j \<and> j < c \<longrightarrow> slug_exists rows pk (suffixed b j))"
        using unfold False by auto
      then show ?thesis
        using True by (auto intro: exI [of _ c])
    next
      case taken: True
      then obtain k where k: "c + 1 \<le> k"
        and res: "slug_loop rows pk b (suffixed b c) (c + 1) = suffixed b k"
        and free: "\<not> slug_exists rows pk (suffixed b k)"
        and below: "\<forall>j. c + 1 \<le> j \<and> j < k \<longrightarrow> slug_exists rows pk (suffixed b j)"
        using "1.IH" [OF True] by auto
      have "\<forall>j. c \<le> j \<and> j < k \<longrightarrow> slug_exists rows pk (suffixed b j)"
      proof (intro allI impI)
        fix j
        assume j: "c \<le> j \<and> j < k"
        show "slug_exists rows pk (suffixed b j)"
        proof (cases "j = c")
          case True
          then show ?thesis using taken by simp
        next
          case False
          then have "c + 1 \<le> j \<and> j < k"
            using j by simp
          then show ?thesis using below by blast
        qed
      qed
      then have "c \<le> k \<and> slug_loop rows pk b slug c = suffixed b k
                 \<and> \<not> slug_exists rows pk (suffixed b k)
                 \<and> (\<forall>j. c \<le> j \<and> j < k \<longrightarrow> slug_exists rows pk (suffixed b j))"
        using k res free unfold by simp
      then show ?thesis
        using True by (auto intro: exI [of _ k])
    qed
  qed
qed

definition first_free :: "(string \<Rightarrow> bool) \<Rightarrow> string \<Rightarrow> string \<Rightarrow> bool" where
  \<comment> \<open>\<open>s\<close> is the first of \<open>b\<close>, \<open>b-1\<close>, \<open>b-2\<close>, \<dots> that is not held\<close>
  "first_free held b s =
     (\<not> held s
      \<and> (if held b
          then \<exists>k\<ge>1. s = suffixed b k \<and> (\<forall>j. 1 \<le> j \<and> j < k \<longrightarrow> held (suffixed b j))
          else s = b))"

lemma unique_slugify_first_free:
  "first_free (slug_exists rows pk) (slugify v) (unique_slugify rows pk v)"
proof (cases "slug_exists rows pk (slugify v)")
  case False
  then have "unique_slugify rows pk v = slugify v"
    using slug_loop_result [of rows pk "slugify v" 1 "slugify v"]
    by (simp add: unique_slugify_def)
  then show ?thesis
    using False by (simp add: first_free_def)
next
  case True
  then obtain k where "1 \<le> k"
    and "slug_loop rows pk (slugify v) (slugify v) 1 = suffixed (slugify v) k"
    and "\<not> slug_exists rows pk (suffixed (slugify v) k)"
    and "\<forall>j. 1 \<le> j \<and> j < k \<longrightarrow> slug_exists rows pk (suffixed (slugify v) j)"
    using slug_loop_result [of rows pk "slugify v" 1 "slugify v"] by auto
  then show ?thesis
    using True by (auto simp: first_free_def unique_slugify_def)
qed

subsection \<open>What the handlers assign\<close>

text \<open>
  A slug is held against an instance when a row of the table of its model has the slug
  and is another record: any row for an instance without a key, a row of another key
  for a saved instance.
\<close>

definition product_slug_held :: "db \<Rightarrow> nat option \<Rightarrow> string \<Rightarrow> bool" where
  "product_slug_held d pk s =
     (\<exists>q\<in>set (products d). product_slug q = s \<and> (pk = None \<or> product_pk q \<noteq> pk))"

definition service_slug_held :: "db \<Rightarrow> nat option \<Rightarrow> string \<Rightarrow> bool" where
  "service_slug_held d pk s =
     (\<exists>q\<in>set (services d). service_slug q = s \<and> (pk = None \<or> service_pk q \<noteq> pk))"

definition event_slug_held :: "db \<Rightarrow> nat option \<Rightarrow> string \<Rightarrow> bool" where
  "event_slug_held d pk s =
     (\<exists>q\<in>set (events d). event_slug q = s \<and> (pk = None \<or> event_pk q \<noteq> pk))"

lemma product_rows_held: "slug_exists (Product_rows d) pk = product_slug_held d pk"
  by (rule ext) (auto simp: slug_exists_iff Product_rows_def product_slug_held_def)

lemma service_rows_held: "slug_exists (Service_rows d) pk = service_slug_held d pk"
  by (rule ext) (auto simp: slug_exists_iff Service_rows_def service_slug_held_def)

lemma event_rows_held: "slug_exists (Event_rows d) pk = event_slug_held d pk"
  by (rule ext) (auto simp: slug_exists_iff Event_rows_def event_slug_held_def)

definition fresh_eggs :: Product where
  "fresh_eggs = \<lparr>product_pk = Some 1, product_name = ''Fresh Eggs'',
                 product_slug = ''fresh-eggs'', product_price = 500, product_in_stock = True\<rparr>"

definition catalogue :: db where
  \<comment> \<open>two products whose names slugify alike\<close>
  "catalogue =
     \<lparr>products = [fresh_eggs,
                  fresh_eggs\<lparr>product_pk := Some 2, product_slug := ''fresh-eggs-1''\<rparr>],
      services = [], events = [], bookings = [], orders = [], subscribers = []\<rparr>"

definition unsaved_eggs :: Product where
  \<comment> \<open>a third product of the same name, as the product form builds it\<close>
  "unsaved_eggs = \<lparr>product_pk = None, product_name = ''Fresh Eggs'', product_slug = [],
                   product_price = 500, product_in_stock = True\<rparr>"

definition renamed_eggs :: Product where
  \<comment> \<open>the second product of the catalogue with its slug field cleared\<close>
  "renamed_eggs = \<lparr>product_pk = Some 2, product_name = ''Fresh Eggs 1'', product_slug = [],
                   product_price = 500, product_in_stock = True\<rparr>"

text \<open>
  C7.  For a product, a service and an event alike, the handler leaves an instance whose
  slug is not blank as it is, and changes of an instance whose slug is blank the slug
  only, to the first of \<open>b\<close>, \<open>b-1\<close>, \<open>b-2\<close>, \<dots> that no other record of the table of its
  model holds, \<open>b\<close> being the slugified name or title.  The row with the key of the
  instance is not another record, so a saved instance whose own row alone holds \<open>b\<close>
  gets \<open>b\<close>.
\<close>

theorem slug_assigned_when_blank:
  "(product_slug p \<noteq> [] \<longrightarrow> set_product_slug d p = p)
   \<and> (product_slug p = [] \<longrightarrow>
        set_product_slug d p = p\<lparr>product_slug := product_slug (set_product_slug d p)\<rparr>
        \<and> first_free (product_slug_held d (product_pk p)) (slugify (product_name p))
             (product_slug (set_product_slug d p)))
   \<and> (service_slug sv \<noteq> [] \<longrightarrow> set_service_slug d sv = sv)
   \<and> (service_slug sv = [] \<longrightarrow>
        set_service_slug d sv = sv\<lparr>service_slug := service_slug (set_service_slug d sv)\<rparr>
        \<and> first_free (service_slug_held d (service_pk sv)) (slugify (service_name sv))
             (service_slug (set_service_slug d sv)))
   \<and> (event_slug ev \<noteq> [] \<longrightarrow> set_event_slug d ev = ev)
   \<and> (event_slug ev = [] \<longrightarrow>
        set_event_slug d ev = ev\<lparr>event_slug := event_slug (set_event_slug d ev)\<rparr>
        \<and> first_free (event_slug_held d (event_pk ev)) (slugify (event_title ev))
             (event_slug (set_event_slug d ev)))"
proof (intro conjI impI)
  assume "product_slug p = []"
  then show "first_free (product_slug_held d (product_pk p)) (slugify (product_name p))
               (product_slug (set_product_slug d p))"
    using unique_slugify_first_free [of "Product_rows d" "product_pk p" "product_name p"]
    by (simp add: set_product_slug_def product_rows_held)
next
  assume "service_slug sv = []"
  then show "first_free (service_slug_held d (service_pk sv)) (slugify (service_name sv))
               (service_slug (set_service_slug d sv))"
    using unique_slugify_first_free [of "Service_rows d" "service_pk sv" "service_name sv"]
    by (simp add: set_service_slug_def service_rows_held)
next
  assume "event_slug ev = []"
  then show "first_free (event_slug_held d (event_pk ev)) (slugify (event_title ev))
               (event_slug (set_event_slug d ev))"
    using unique_slugify_first_free [of "Event_rows d" "event_pk ev" "event_title ev"]
    by (simp add: set_event_slug_def event_rows_held)
qed (simp_all add: set_product_slug_def set_service_slug_def set_event_slug_def)

text \<open>
  With \<open>fresh-eggs\<close> and \<open>fresh-eggs-1\<close> taken, a new product named Fresh Eggs gets
  \<open>fresh-eggs-2\<close>; the second product, saved with a blank slug under the name
  Fresh Eggs 1, gets \<open>fresh-eggs-1\<close>, which its own row alone holds; a product that has a
  slug keeps it.
\<close>

theorem slug_assigned_when_blank_witness:
  "set_product_slug catalogue unsaved_eggs = unsaved_eggs\<lparr>product_slug := ''fresh-eggs-2''\<rparr>
   \<and> first_free (product_slug_held catalogue None) ''fresh-eggs'' ''fresh-eggs-2''
   \<and> product_slug_held catalogue None ''fresh-eggs''
   \<and> product_slug_held catalogue None ''fresh-eggs-1''
   \<and> \<not> product_slug_held catalogue None ''fresh-eggs-2''
   \<and> set_product_slug catalogue renamed_eggs = renamed_eggs\<lparr>product_slug := ''fresh-eggs-1''\<rparr>
   \<and> first_free (product_slug_held catalogue (Some 2)) ''fresh-eggs-1'' ''fresh-eggs-1''
   \<and> set_product_slug catalogue fresh_eggs = fresh_eggs"
proof -
  have base: "slugify ''Fresh Eggs'' = ''fresh-eggs''"
    by code_simp
  have base1: "slugify ''Fresh Eggs 1'' = ''fresh-eggs-1''"
    by code_simp
  have third: "set_product_slug catalogue unsaved_eggs
                 = unsaved_eggs\<lparr>product_slug := ''fresh-eggs-2''\<rparr>"
    by code_simp
  have again: "set_product_slug catalogue renamed_eggs
                 = renamed_eggs\<lparr>product_slug := ''fresh-eggs-1''\<rparr>"
    by code_simp
  have blank: "product_slug unsaved_eggs = []" "product_pk unsaved_eggs = None"
    "product_name unsaved_eggs = ''Fresh Eggs''"
    by (simp_all add: unsaved_eggs_def)
  have blank1: "product_slug renamed_eggs = []" "product_pk renamed_eggs = Some 2"
    "product_name renamed_eggs = ''Fresh Eggs 1''"
    by (simp_all add: renamed_eggs_def)
  have named: "product_slug fresh_eggs \<noteq> []"
    by (simp add: fresh_eggs_def)
  have held: "product_slug_held catalogue None ''fresh-eggs''"
    "product_slug_held catalogue None ''fresh-eggs-1''"
    "\<not> product_slug_held catalogue None ''fresh-eggs-2''"
    by (simp_all add: product_slug_held_def catalogue_def fresh_eggs_def)
  note keep = slug_assigned_when_blank [THEN conjunct1, of fresh_eggs catalogue]
  note new = slug_assigned_when_blank [THEN conjunct2, THEN conjunct1, of unsaved_eggs catalogue]
  note own = slug_assigned_when_blank [THEN conjunct2, THEN conjunct1, of renamed_eggs catalogue]
  have b: "first_free (product_slug_held catalogue None) ''fresh-eggs'' ''fresh-eggs-2''"
    using new blank base by (simp add: third)
  have c: "first_free (product_slug_held catalogue (Some 2)) ''fresh-eggs-1'' ''fresh-eggs-1''"
    using own blank1 base1 by (simp add: again)
  have e: "set_product_slug catalogue fresh_eggs = fresh_eggs"
    using keep named by simp
  show ?thesis
    using third b held again c e by (intro conjI)
qed

subsection \<open>A name without a letter or digit\<close>

definition no_products :: db where
  "no_products = \<lparr>products = [], services = [], events = [], bookings = [], orders = [],
                  subscribers = []\<rparr>"

definition bang :: Product where
  \<comment> \<open>a product named \<open>!!!\<close>, as the product form builds it\<close>
  "bang = \<lparr>product_pk = None, product_name = ''!!!'', product_slug = [], product_price = 100,
           product_in_stock = True\<rparr>"

text \<open>
  C8 at its failing input.  The name \<open>!!!\<close> slugifies to the empty text, no row holds the
  empty slug, and the product is saved with the empty slug.
\<close>

theorem product_saved_with_empty_slug:
  "slugify ''!!!'' = []
   \<and> Product_save no_products bang
     = Inr (no_products\<lparr>products := [bang\<lparr>product_pk := Some 1\<rparr>]\<rparr>, bang\<lparr>product_pk := Some 1\<rparr>)
   \<and> product_slug (bang\<lparr>product_pk := Some 1\<rparr>) = []"
proof -
  have base: "slugify ''!!!'' = []"
    by code_simp
  have loop: "unique_slugify [] None ''!!!'' = []"
    by (simp add: unique_slugify_def base slug_loop.simps slug_exists_def)
  have handler: "set_product_slug no_products bang = bang"
    by (simp add: set_product_slug_def Product_rows_def no_products_def bang_def loop)
  have free: "\<not> slug_exists (Product_rows no_products) (product_pk bang) (product_slug bang)"
    by (simp add: Product_rows_def no_products_def slug_exists_def)
  have key: "next_pk (map product_pk (products no_products)) = 1"
    by (simp add: next_pk_def no_products_def)
  have unsaved: "product_pk bang = None"
    by (simp add: bang_def)
  have save: "Product_save no_products bang
     = Inr (no_products\<lparr>products := [bang\<lparr>product_pk := Some 1\<rparr>]\<rparr>, bang\<lparr>product_pk := Some 1\<rparr>)"
    by (simp add: Product_save_def handler free key unsaved Let_def)
      (simp add: no_products_def Product_rows_def slug_exists_def)
  have slug: "product_slug (bang\<lparr>product_pk := Some 1\<rparr>) = []"
    by (simp add: bang_def)
  show ?thesis
    using base save slug by (intro conjI)
qed

end
